theory Spec2Isabelle
  imports Complex_Main
begin

section \<open>The persisted schema\<close>

text \<open>
  The four relations of the initial migration. A \<open>uuid\<close> is kept as the string the
  client sees. A \<open>timestamptz\<close> is the number of microseconds since the epoch. A
  \<open>decimal(10,2)\<close> column holds a whole number of hundredths, so two decimal places are
  part of the type. An \<open>integer\<close> column is an \<open>int\<close> whose 32-bit range is checked where
  the row is written. Columns declared without \<open>NOT NULL\<close> are options.
\<close>

type_synonym uuid = string
type_synonym timestamptz = int
type_synonym decimal_10_2 = int

record product =
  p_id :: uuid
  name :: string
  description :: "string option"
  unit_selling_price :: decimal_10_2
  cost_per_batch :: decimal_10_2
  units_per_batch :: int
  current_stock :: int
  total_units_sold :: int
  created_at :: "timestamptz option"
  updated_at :: "timestamptz option"

record stock_purchase =
  sp_id :: uuid
  sp_product_id :: uuid
  batches_purchased :: int
  sp_cost_per_batch :: decimal_10_2
  total_cost :: decimal_10_2
  units_added :: int
  purchase_date :: "timestamptz option"
  sp_notes :: "string option"

record sale =
  s_id :: uuid
  sale_date :: "timestamptz option"
  total_amount :: decimal_10_2
  s_notes :: "string option"

record sale_item =
  si_id :: uuid
  sale_id :: uuid
  product_id :: uuid
  quantity :: int
  unit_price :: decimal_10_2
  subtotal :: decimal_10_2

record db =
  products :: "product list"
  stock_purchases :: "stock_purchase list"
  sales :: "sale list"
  sale_items :: "sale_item list"

text \<open>
  A statement that violates a constraint raises, and the whole statement, with the
  triggers it fired, is rolled back: the result is the error and no new state.
\<close>

datatype db_error =
  not_null_violation
  | check_violation
  | foreign_key_violation
  | unique_violation
  | numeric_value_out_of_range
  | invalid_text_representation

definition int4 :: "int \<Rightarrow> bool" where
  "int4 n \<longleftrightarrow> - 2147483648 \<le> n \<and> n \<le> 2147483647"

definition numeric_10_2 :: "decimal_10_2 \<Rightarrow> bool" where
  "numeric_10_2 c \<longleftrightarrow> - 10000000000 < c \<and> c < 10000000000"

text \<open>The column types and the \<open>CHECK\<close> constraints of each table, for one row.\<close>

definition products_row :: "product \<Rightarrow> db_error + product" where
  "products_row r =
     (if \<not> (numeric_10_2 (unit_selling_price r) \<and> numeric_10_2 (cost_per_batch r)
             \<and> int4 (units_per_batch r) \<and> int4 (current_stock r) \<and> int4 (total_units_sold r))
      then Inl numeric_value_out_of_range
      else if \<not> (unit_selling_price r \<ge> 0 \<and> cost_per_batch r \<ge> 0 \<and> units_per_batch r > 0
                  \<and> current_stock r \<ge> 0 \<and> total_units_sold r \<ge> 0)
      then Inl check_violation
      else Inr r)"

definition stock_purchases_row :: "stock_purchase \<Rightarrow> db_error + stock_purchase" where
  "stock_purchases_row r =
     (if \<not> (int4 (batches_purchased r) \<and> numeric_10_2 (sp_cost_per_batch r)
             \<and> numeric_10_2 (total_cost r) \<and> int4 (units_added r))
      then Inl numeric_value_out_of_range
      else if \<not> (batches_purchased r > 0 \<and> sp_cost_per_batch r \<ge> 0 \<and> total_cost r \<ge> 0
                  \<and> units_added r > 0)
      then Inl check_violation
      else Inr r)"

definition sales_row :: "sale \<Rightarrow> db_error + sale" where
  "sales_row r =
     (if \<not> numeric_10_2 (total_amount r) then Inl numeric_value_out_of_range
      else if \<not> total_amount r \<ge> 0 then Inl check_violation
      else Inr r)"

definition sale_items_row :: "sale_item \<Rightarrow> db_error + sale_item" where
  "sale_items_row r =
     (if \<not> (int4 (quantity r) \<and> numeric_10_2 (unit_price r) \<and> numeric_10_2 (subtotal r))
      then Inl numeric_value_out_of_range
      else if \<not> (quantity r > 0 \<and> unit_price r \<ge> 0 \<and> subtotal r \<ge> 0)
      then Inl check_violation
      else Inr r)"


section \<open>The ledger engine: triggers and the restoration function\<close>

text \<open>\<open>update_product_updated_at\<close>, the \<open>BEFORE UPDATE\<close> trigger of \<open>products\<close>.\<close>

definition update_product_updated_at :: "timestamptz \<Rightarrow> product \<Rightarrow> product" where
  "update_product_updated_at now NEW = NEW\<lparr>updated_at := Some now\<rparr>"

text \<open>
  \<open>UPDATE products SET ... WHERE id = pid\<close>: every row with that id is rewritten by
  \<open>SET\<close>, passed through the \<open>BEFORE UPDATE\<close> trigger and checked; the other rows are
  kept. The first row that fails raises.
\<close>

fun update_products ::
  "timestamptz \<Rightarrow> (product \<Rightarrow> product) \<Rightarrow> uuid \<Rightarrow> product list \<Rightarrow> db_error + product list" where
  "update_products now SET pid [] = Inr []"
| "update_products now SET pid (r # rs) =
     (if p_id r = pid
      then (case products_row (update_product_updated_at now (SET r)) of
              Inl e \<Rightarrow> Inl e
            | Inr r' \<Rightarrow> (case update_products now SET pid rs of
                           Inl e \<Rightarrow> Inl e
                         | Inr rs' \<Rightarrow> Inr (r' # rs')))
      else (case update_products now SET pid rs of
              Inl e \<Rightarrow> Inl e
            | Inr rs' \<Rightarrow> Inr (r # rs')))"

definition update_stock_on_purchase ::
  "timestamptz \<Rightarrow> stock_purchase \<Rightarrow> product list \<Rightarrow> db_error + product list" where
  "update_stock_on_purchase now NEW =
     update_products now
       (\<lambda>r. r\<lparr>current_stock := current_stock r + units_added NEW\<rparr>)
       (sp_product_id NEW)"

definition update_stock_on_sale ::
  "timestamptz \<Rightarrow> sale_item \<Rightarrow> product list \<Rightarrow> db_error + product list" where
  "update_stock_on_sale now NEW =
     update_products now
       (\<lambda>r. r\<lparr>current_stock := current_stock r - quantity NEW,
               total_units_sold := total_units_sold r + quantity NEW\<rparr>)
       (product_id NEW)"

text \<open>
  \<open>restore_stock_on_sale_delete(p_product_id uuid, p_quantity integer)\<close>, called by the
  client as a remote procedure. The argument is an \<open>integer\<close>.
\<close>

definition restore_stock_on_sale_delete ::
  "timestamptz \<Rightarrow> uuid \<Rightarrow> int \<Rightarrow> product list \<Rightarrow> db_error + product list" where
  "restore_stock_on_sale_delete now p_product_id p_quantity ps =
     (if \<not> int4 p_quantity then Inl numeric_value_out_of_range
      else update_products now
             (\<lambda>r. r\<lparr>current_stock := current_stock r + p_quantity,
                     total_units_sold := total_units_sold r - p_quantity\<rparr>)
             p_product_id ps)"

text \<open>
  \<open>INSERT\<close> of one row: the row's own constraints, the primary key, the foreign keys,
  then the \<open>AFTER INSERT ... FOR EACH ROW\<close> trigger. The order of the checks decides only
  which error is reported. The caller passes the row with its defaults filled in.
\<close>

definition insert_stock_purchase :: "timestamptz \<Rightarrow> stock_purchase \<Rightarrow> db \<Rightarrow> db_error + db" where
  "insert_stock_purchase now NEW d =
     (case stock_purchases_row NEW of
        Inl e \<Rightarrow> Inl e
      | Inr _ \<Rightarrow>
          if sp_id NEW \<in> set (map sp_id (stock_purchases d)) then Inl unique_violation
          else if sp_product_id NEW \<notin> set (map p_id (products d)) then Inl foreign_key_violation
          else (case update_stock_on_purchase now NEW (products d) of
                  Inl e \<Rightarrow> Inl e
                | Inr ps \<Rightarrow> Inr (d\<lparr>stock_purchases := stock_purchases d @ [NEW], products := ps\<rparr>)))"

definition insert_sale :: "sale \<Rightarrow> db \<Rightarrow> db_error + db" where
  "insert_sale NEW d =
     (case sales_row NEW of
        Inl e \<Rightarrow> Inl e
      | Inr _ \<Rightarrow>
          if s_id NEW \<in> set (map s_id (sales d)) then Inl unique_violation
          else Inr (d\<lparr>sales := sales d @ [NEW]\<rparr>))"

definition insert_sale_item :: "timestamptz \<Rightarrow> sale_item \<Rightarrow> db \<Rightarrow> db_error + db" where
  "insert_sale_item now NEW d =
     (case sale_items_row NEW of
        Inl e \<Rightarrow> Inl e
      | Inr _ \<Rightarrow>
          if si_id NEW \<in> set (map si_id (sale_items d)) then Inl unique_violation
          else if sale_id NEW \<notin> set (map s_id (sales d)) then Inl foreign_key_violation
          else if product_id NEW \<notin> set (map p_id (products d)) then Inl foreign_key_violation
          else (case update_stock_on_sale now NEW (products d) of
                  Inl e \<Rightarrow> Inl e
                | Inr ps \<Rightarrow> Inr (d\<lparr>sale_items := sale_items d @ [NEW], products := ps\<rparr>)))"

text \<open>\<open>DELETE FROM sales WHERE id = sid\<close>, with \<open>ON DELETE CASCADE\<close> of \<open>sale_items\<close>.\<close>

definition delete_sale :: "uuid \<Rightarrow> db \<Rightarrow> db" where
  "delete_sale sid d =
     d\<lparr>sales := filter (\<lambda>s. s_id s \<noteq> sid) (sales d),
       sale_items := filter (\<lambda>i. sale_id i \<noteq> sid) (sale_items d)\<rparr>"

text \<open>
  A history of creations: each insert is a statement of its own, run at its own time;
  the history stops at the first insert that raises.
\<close>

fun inserts :: "(timestamptz \<Rightarrow> 'r \<Rightarrow> db \<Rightarrow> db_error + db) \<Rightarrow> (timestamptz \<times> 'r) list \<Rightarrow> db
                \<Rightarrow> db_error + db" where
  "inserts ins [] d = Inr d"
| "inserts ins ((now, NEW) # rest) d =
     (case ins now NEW d of Inl e \<Rightarrow> Inl e | Inr d' \<Rightarrow> inserts ins rest d')"

text \<open>The row of \<open>products\<close> with a given id, as \<open>Array.prototype.find\<close> and a primary-key
  lookup both give it.\<close>

definition product_of :: "uuid \<Rightarrow> product list \<Rightarrow> product option" where
  "product_of pid ps = find (\<lambda>p. p_id p = pid) ps"


section \<open>Numbers and strings of the client\<close>

text \<open>
  A client-side \<open>number\<close> is a rational or one of the three special values. Arithmetic on
  the rationals is exact: the rounding of IEEE doubles and the sign of zero are left out.
\<close>

datatype number = Num rat | Infinity | NegInfinity | NaN

fun js_negative :: "number \<Rightarrow> bool" where
  "js_negative (Num a) = (a < 0)"
| "js_negative NegInfinity = True"
| "js_negative _ = False"

fun js_times :: "number \<Rightarrow> number \<Rightarrow> number" where
  "js_times (Num a) (Num b) = Num (a * b)"
| "js_times NaN y = NaN"
| "js_times x NaN = NaN"
| "js_times x y =
     (if x = Num 0 \<or> y = Num 0 then NaN
      else if js_negative x = js_negative y then Infinity else NegInfinity)"


definition StrWhiteSpaceChar :: "char \<Rightarrow> bool" where
  "StrWhiteSpaceChar c \<longleftrightarrow>
     c \<in> set [CHR 0x09, CHR 0x0A, CHR 0x0B, CHR 0x0C, CHR 0x0D, CHR 0x20, CHR 0xA0]"

definition radix_digit :: "nat \<Rightarrow> char \<Rightarrow> nat option" where
  "radix_digit R c =
     (let n = (of_char c :: nat);
          v = (if 48 \<le> n \<and> n \<le> 57 then Some (n - 48)
               else if 97 \<le> n \<and> n \<le> 122 then Some (n - 87)
               else if 65 \<le> n \<and> n \<le> 90 then Some (n - 55)
               else None)
      in case v of None \<Rightarrow> None | Some k \<Rightarrow> if k < R then Some k else None)"

definition digits_value :: "nat \<Rightarrow> string \<Rightarrow> nat" where
  "digits_value R Z =
     foldl (\<lambda>acc c. case radix_digit R c of None \<Rightarrow> acc | Some k \<Rightarrow> acc * R + k) 0 Z"

definition strip_sign :: "string \<Rightarrow> string" where
  "strip_sign S = (if S \<noteq> [] \<and> (hd S = CHR ''+'' \<or> hd S = CHR ''-'') then tl S else S)"

text \<open>
  \<open>parseInt(string)\<close> with no radix: leading white space and a sign are skipped, \<open>0x\<close>
  selects radix 16, and the longest run of digits is read; no digit gives \<open>NaN\<close>.
\<close>

definition parseInt :: "string \<Rightarrow> number" where
  "parseInt string =
     (let S = dropWhile StrWhiteSpaceChar string;
          sign = (if S \<noteq> [] \<and> hd S = CHR ''-'' then - 1 else 1 :: int);
          S = strip_sign S;
          hex = (take 2 S = ''0x'' \<or> take 2 S = ''0X'');
          R = (if hex then 16 else 10);
          S = (if hex then drop 2 S else S);
          Z = takeWhile (\<lambda>c. radix_digit R c \<noteq> None) S
      in if Z = [] then NaN else Num (of_int (sign * int (digits_value R Z))))"

definition is_digit :: "char \<Rightarrow> bool" where
  "is_digit c \<longleftrightarrow> radix_digit 10 c \<noteq> None"

text \<open>The exponent of a decimal literal, \<open>0\<close> when the text is not an exponent part.\<close>

definition ExponentPart :: "string \<Rightarrow> int" where
  "ExponentPart S =
     (if S \<noteq> [] \<and> (hd S = CHR ''e'' \<or> hd S = CHR ''E'')
      then (let T = tl S;
                ds = takeWhile is_digit (strip_sign T)
            in if ds = [] then 0
               else if T \<noteq> [] \<and> hd T = CHR ''-'' then - int (digits_value 10 ds)
               else int (digits_value 10 ds))
      else 0)"

definition scale10 :: "rat \<Rightarrow> int \<Rightarrow> rat" where
  "scale10 m e = (if e \<ge> 0 then m * 10 ^ nat e else m / 10 ^ nat (- e))"

text \<open>
  \<open>parseFloat(string)\<close>: the longest prefix, after leading white space, that is a signed
  decimal literal (\<open>Infinity\<close>, digits with an optional fraction, or a fraction alone, and
  an optional exponent); no such prefix gives \<open>NaN\<close>. A literal beyond the range of a
  double is kept as its exact value.
\<close>

definition parseFloat :: "string \<Rightarrow> number" where
  "parseFloat string =
     (let S0 = dropWhile StrWhiteSpaceChar string;
          neg = (S0 \<noteq> [] \<and> hd S0 = CHR ''-'');
          S = strip_sign S0
      in if take 8 S = ''Infinity'' then (if neg then NegInfinity else Infinity)
         else
           (let int_part = takeWhile is_digit S;
                S1 = dropWhile is_digit S;
                dot = (S1 \<noteq> [] \<and> hd S1 = CHR ''.'');
                frac_part = (if dot then takeWhile is_digit (tl S1) else []);
                S2 = (if dot then dropWhile is_digit (tl S1) else S1);
                m = of_nat (digits_value 10 (int_part @ frac_part)) / 10 ^ length frac_part;
                v = scale10 m (ExponentPart S2)
            in if int_part = [] \<and> frac_part = [] then NaN
               else Num (if neg then - v else v)))"

text \<open>\<open>String(n)\<close> for an integer \<open>n\<close> (below the magnitude where exponents appear).\<close>

fun digits_of :: "nat \<Rightarrow> string" where
  "digits_of n =
     (if n < 10 then [char_of (48 + n)] else digits_of (n div 10) @ [char_of (48 + n mod 10)])"

definition Number_toString :: "int \<Rightarrow> string" where
  "Number_toString n = (if n < 0 then CHR ''-'' # digits_of (nat (- n)) else digits_of (nat n))"

text \<open>
  What a column makes of a number in the request body. \<open>NaN\<close> and the infinities are
  serialised as \<open>null\<close>. An \<open>integer\<close> column refuses a fraction; a \<open>decimal(10,2)\<close> column
  rounds to hundredths, half away from zero.
\<close>

definition to_integer :: "number \<Rightarrow> db_error + int" where
  "to_integer x =
     (case x of
        Num r \<Rightarrow> if of_int \<lfloor>r\<rfloor> = r then Inr \<lfloor>r\<rfloor> else Inl invalid_text_representation
      | _ \<Rightarrow> Inl not_null_violation)"

definition to_decimal_10_2 :: "number \<Rightarrow> db_error + decimal_10_2" where
  "to_decimal_10_2 x =
     (case x of
        Num r \<Rightarrow> Inr (if r \<ge> 0 then \<lfloor>r * 100 + 1 / 2\<rfloor> else - \<lfloor>- r * 100 + 1 / 2\<rfloor>)
      | _ \<Rightarrow> Inl not_null_violation)"


text \<open>
  How a handler ends: it returns silently, it alerts and returns before any request is
  made (\<open>Rejected\<close>), its \<open>catch\<close> block alerts (\<open>Failed\<close>), or it calls \<open>onSuccess\<close>.
  Requests fail only as the database makes them fail; a lost connection is not modelled.
\<close>

datatype outcome = Returned | Rejected string | Failed string | OnSuccess


section \<open>Restock\<close>

record Restock_state =
  selectedProductId :: string
  batchesPurchased :: string
  costPerBatch :: string
  notes_text :: string

definition selectedProduct :: "product list \<Rightarrow> Restock_state \<Rightarrow> product option" where
  "selectedProduct ps st = product_of (selectedProductId st) ps"

definition totalCost :: "Restock_state \<Rightarrow> number" where
  "totalCost st =
     (if selectedProductId st \<noteq> [] \<and> batchesPurchased st \<noteq> [] \<and> costPerBatch st \<noteq> []
      then js_times (parseFloat (batchesPurchased st)) (parseFloat (costPerBatch st))
      else Num 0)"

definition unitsAdded :: "product list \<Rightarrow> Restock_state \<Rightarrow> number" where
  "unitsAdded ps st =
     (case selectedProduct ps st of
        Some p \<Rightarrow>
          if batchesPurchased st \<noteq> []
          then js_times (Num (of_int (units_per_batch p))) (parseInt (batchesPurchased st))
          else Num 0
      | None \<Rightarrow> Num 0)"

text \<open>The row the request body becomes; \<open>id\<close> and \<open>purchase_date\<close> take their defaults.\<close>

definition Restock_row ::
  "timestamptz \<Rightarrow> uuid \<Rightarrow> product list \<Rightarrow> Restock_state \<Rightarrow> db_error + stock_purchase" where
  "Restock_row now new_id ps st =
     (case to_integer (parseInt (batchesPurchased st)) of
        Inl e \<Rightarrow> Inl e
      | Inr b \<Rightarrow>
     (case to_decimal_10_2 (parseFloat (costPerBatch st)) of
        Inl e \<Rightarrow> Inl e
      | Inr c \<Rightarrow>
     (case to_decimal_10_2 (totalCost st) of
        Inl e \<Rightarrow> Inl e
      | Inr t \<Rightarrow>
     (case to_integer (unitsAdded ps st) of
        Inl e \<Rightarrow> Inl e
      | Inr u \<Rightarrow>
          Inr \<lparr>sp_id = new_id, sp_product_id = selectedProductId st, batches_purchased = b,
               sp_cost_per_batch = c, total_cost = t, units_added = u,
               purchase_date = Some now,
               sp_notes = (if notes_text st = [] then None else Some (notes_text st))\<rparr>))))"

definition Restock_handleSubmit ::
  "timestamptz \<Rightarrow> uuid \<Rightarrow> product list \<Rightarrow> Restock_state \<Rightarrow> db \<Rightarrow> outcome \<times> db" where
  "Restock_handleSubmit now new_id ps st d =
     (case selectedProduct ps st of
        None \<Rightarrow> (Returned, d)
      | Some _ \<Rightarrow>
          (case Restock_row now new_id ps st of
             Inl e \<Rightarrow> (Failed ''Failed to record restock. Please try again.'', d)
           | Inr NEW \<Rightarrow>
               (case insert_stock_purchase now NEW d of
                  Inl e \<Rightarrow> (Failed ''Failed to record restock. Please try again.'', d)
                | Inr d' \<Rightarrow> (OnSuccess, d'))))"


section \<open>RecordSale\<close>

text \<open>
  The quantity of a line item is a whole number: the form starts it at \<open>1\<close> and changes
  it by the two step buttons only. Prices are the hundredths of the snapshot, so the
  products and sums below are the decimal values the columns store.
\<close>

record SaleLineItem =
  li_id :: string
  li_product_id :: uuid
  li_quantity :: int

definition incrementQuantity :: "product list \<Rightarrow> string \<Rightarrow> SaleLineItem list \<Rightarrow> SaleLineItem list" where
  "incrementQuantity ps i lineItems =
     map (\<lambda>item.
            if li_id item = i
            then (let maxQuantity = (case product_of (li_product_id item) ps of
                                       Some p \<Rightarrow> current_stock p | None \<Rightarrow> 999)
                  in item\<lparr>li_quantity := min (li_quantity item + 1) maxQuantity\<rparr>)
            else item) lineItems"

definition decrementQuantity :: "string \<Rightarrow> SaleLineItem list \<Rightarrow> SaleLineItem list" where
  "decrementQuantity i lineItems =
     map (\<lambda>item. if li_id item = i then item\<lparr>li_quantity := max (li_quantity item - 1) 1\<rparr> else item)
       lineItems"

definition calculateTotal :: "product list \<Rightarrow> SaleLineItem list \<Rightarrow> decimal_10_2" where
  "calculateTotal ps lineItems =
     foldl (\<lambda>total item.
              case product_of (li_product_id item) ps of
                Some p \<Rightarrow>
                  if li_quantity item > 0 then total + unit_selling_price p * li_quantity item
                  else total
              | None \<Rightarrow> total) 0 lineItems"

definition not_enough_stock :: "product \<Rightarrow> SaleLineItem \<Rightarrow> string" where
  "not_enough_stock p item =
     ''Not enough stock for '' @ name p @ ''. Available: '' @ Number_toString (current_stock p)
       @ '', Requested: '' @ Number_toString (li_quantity item)"

fun validateStock :: "product list \<Rightarrow> SaleLineItem list \<Rightarrow> bool \<times> string" where
  "validateStock ps [] = (True, [])"
| "validateStock ps (item # rest) =
     (case product_of (li_product_id item) ps of
        Some p \<Rightarrow>
          if li_quantity item > current_stock p then (False, not_enough_stock p item)
          else validateStock ps rest
      | None \<Rightarrow> validateStock ps rest)"

text \<open>
  The rows of \<open>saleItems\<close>. A line whose product is not in the snapshot makes the
  \<open>map\<close> throw, which is \<open>None\<close>. The database draws the ids: \<open>gen 0\<close> for the sale
  and \<open>gen (Suc k)\<close> for the \<open>k\<close>-th line.
\<close>

definition saleItems :: "(nat \<Rightarrow> uuid) \<Rightarrow> product list \<Rightarrow> SaleLineItem list \<Rightarrow> sale_item list option" where
  "saleItems gen ps lineItems =
     those (map (\<lambda>(k, item).
                   case product_of (li_product_id item) ps of
                     None \<Rightarrow> None
                   | Some p \<Rightarrow>
                       Some \<lparr>si_id = gen (Suc k), sale_id = gen 0, product_id = li_product_id item,
                             quantity = li_quantity item, unit_price = unit_selling_price p,
                             subtotal = unit_selling_price p * li_quantity item\<rparr>)
             (enumerate 0 lineItems))"

text \<open>One \<open>INSERT\<close> of several rows is one statement, at one time.\<close>

definition insert_sale_items :: "timestamptz \<Rightarrow> sale_item list \<Rightarrow> db \<Rightarrow> db_error + db" where
  "insert_sale_items now rows = inserts insert_sale_item (map (\<lambda>r. (now, r)) rows)"

definition RecordSale_handleSubmit ::
  "timestamptz \<Rightarrow> timestamptz \<Rightarrow> (nat \<Rightarrow> uuid) \<Rightarrow> product list \<Rightarrow> SaleLineItem list \<Rightarrow> string \<Rightarrow> db
     \<Rightarrow> outcome \<times> db" where
  "RecordSale_handleSubmit now1 now2 gen ps lineItems notes_in d =
     (let validation = validateStock ps lineItems
      in if \<not> fst validation then (Rejected (snd validation), d)
         else if \<exists>item \<in> set lineItems. li_product_id item = []
         then (Rejected ''Please select a product for all line items'', d)
         else
           (let totalAmount = calculateTotal ps lineItems
            in case insert_sale \<lparr>s_id = gen 0, sale_date = Some now1, total_amount = totalAmount,
                                  s_notes = (if notes_in = [] then None else Some notes_in)\<rparr> d of
                 Inl e \<Rightarrow> (Failed ''Failed to record sale. Please try again.'', d)
               | Inr d1 \<Rightarrow>
                   (case saleItems gen ps lineItems of
                      None \<Rightarrow> (Failed ''Failed to record sale. Please try again.'', d1)
                    | Some rows \<Rightarrow>
                        (case insert_sale_items now2 rows d1 of
                           Inl e \<Rightarrow> (Failed ''Failed to record sale. Please try again.'', d1)
                         | Inr d2 \<Rightarrow> (OnSuccess, d2)))))"


section \<open>EditSale\<close>

text \<open>
  The loop of \<open>handleDelete\<close>: one remote call per selected row, the \<open>k\<close>-th at time
  \<open>clock k\<close>. The result of a call is not inspected, so a call that raises leaves the
  state as it was and the loop goes on. The log lists the calls made.
\<close>

fun restore_each ::
  "(nat \<Rightarrow> timestamptz) \<Rightarrow> nat \<Rightarrow> sale_item list \<Rightarrow> db \<Rightarrow> (uuid \<times> int) list \<times> db" where
  "restore_each clock k [] d = ([], d)"
| "restore_each clock k (item # rest) d =
     (let d' = (case restore_stock_on_sale_delete (clock k) (product_id item) (quantity item)
                       (products d) of
                  Inl e \<Rightarrow> d
                | Inr ps \<Rightarrow> d\<lparr>products := ps\<rparr>);
          (log, d'') = restore_each clock (Suc k) rest d'
      in ((product_id item, quantity item) # log, d''))"

definition handleDelete ::
  "bool \<Rightarrow> (nat \<Rightarrow> timestamptz) \<Rightarrow> uuid \<Rightarrow> db \<Rightarrow> (uuid \<times> int) list \<times> outcome \<times> db" where
  "handleDelete confirmed clock saleId d =
     (if \<not> confirmed then ([], Returned, d)
      else (let selected = filter (\<lambda>i. sale_id i = saleId) (sale_items d);
                (log, d') = restore_each clock 0 selected d
            in (log, OnSuccess, delete_sale saleId d')))"


section \<open>Per-product metrics\<close>






section \<open>Dashboard: the two date filters\<close>

text \<open>
  A \<open>Date\<close> is a number of milliseconds since the epoch. The browser's time zone is a
  fixed offset from UTC, in milliseconds. A calendar date, which is what \<open>toDateString()\<close>
  and the date part of \<open>toISOString()\<close> print, is kept as its day number since the epoch:
  two dates print the same text exactly when their day numbers agree.
\<close>

definition Date_of :: "timestamptz option \<Rightarrow> int" where
  "Date_of date = (case date of None \<Rightarrow> 0 | Some us \<Rightarrow> us div 1000)"

definition toDateString :: "int \<Rightarrow> int \<Rightarrow> int" where
  "toDateString offset ms = (ms + offset) div 86400000"

definition toISOString_date :: "int \<Rightarrow> int" where
  "toISOString_date ms = ms div 86400000"

text \<open>\<open>setDate(getDate() - 1)\<close>: the same local time of day, one calendar day earlier.\<close>

definition setDate_back :: "int \<Rightarrow> int" where
  "setDate_back ms = ms - 86400000"

definition isToday :: "int \<Rightarrow> int \<Rightarrow> timestamptz option \<Rightarrow> bool" where
  "isToday offset now_ms date =
     (toDateString offset (Date_of date) = toDateString offset now_ms)"

definition isYesterday :: "int \<Rightarrow> int \<Rightarrow> timestamptz option \<Rightarrow> bool" where
  "isYesterday offset now_ms date =
     (toDateString offset (Date_of date) = toDateString offset (setDate_back now_ms))"

datatype date_filter = today | yesterday | all_time

definition filterSalesByDate :: "int \<Rightarrow> int \<Rightarrow> sale list \<Rightarrow> date_filter \<Rightarrow> sale list" where
  "filterSalesByDate offset now_ms sls flt =
     (case flt of
        today \<Rightarrow> filter (\<lambda>s. isToday offset now_ms (sale_date s)) sls
      | yesterday \<Rightarrow> filter (\<lambda>s. isYesterday offset now_ms (sale_date s)) sls
      | all_time \<Rightarrow> sls)"

text \<open>
  A date text compared with a \<open>timestamptz\<close> column is read as midnight of that day in
  the session's time zone, \<open>session_offset\<close> microseconds ahead of UTC.
\<close>

definition timestamptz_of_date :: "int \<Rightarrow> int \<Rightarrow> timestamptz" where
  "timestamptz_of_date session_offset day = day * 86400000000 - session_offset"

text \<open>
  The \<open>salesData\<close> query of \<open>fetchFilteredData\<close>:
  \<open>.gte('sale_date', startDateStr).lte('sale_date', endDateStr)\<close>. A null \<open>sale_date\<close>
  satisfies neither comparison. For \<open>all\<close> no query is made and every sale counts.
\<close>

definition fetchFilteredData_salesData :: "int \<Rightarrow> int \<Rightarrow> date_filter \<Rightarrow> sale list \<Rightarrow> sale list" where
  "fetchFilteredData_salesData session_offset now_ms flt sls =
     (if flt = all_time then sls
      else
        (let startDate = (if flt = today then now_ms else setDate_back now_ms);
             endDate = (if flt = today then now_ms else setDate_back now_ms);
             startDateStr = toISOString_date startDate;
             endDateStr = toISOString_date endDate
         in filter (\<lambda>s. case sale_date s of
                           None \<Rightarrow> False
                         | Some t \<Rightarrow> timestamptz_of_date session_offset startDateStr \<le> t
                                     \<and> t \<le> timestamptz_of_date session_offset endDateStr) sls))"


section \<open>The constraints as an invariant, and per-product totals\<close>

text \<open>
  \<open>db_ok\<close>: every row of \<open>products\<close> and of \<open>sale_items\<close> satisfies its column
  types and \<open>CHECK\<close> constraints.
\<close>

definition db_ok :: "db \<Rightarrow> bool" where
  "db_ok d \<longleftrightarrow>
     (\<forall>p \<in> set (products d). products_row p = Inr p)
     \<and> (\<forall>i \<in> set (sale_items d). sale_items_row i = Inr i)"

text \<open>The rows that \<open>handleDelete\<close> selects: the sale items of one sale.\<close>

definition sale_items_of :: "uuid \<Rightarrow> db \<Rightarrow> sale_item list" where
  "sale_items_of sid d = filter (\<lambda>i. sale_id i = sid) (sale_items d)"

text \<open>The two counters of the rows of \<open>products\<close> with a given id.\<close>

definition counters_of :: "uuid \<Rightarrow> product list \<Rightarrow> (int \<times> int) list" where
  "counters_of pid ps =
     map (\<lambda>r. (current_stock r, total_units_sold r)) (filter (\<lambda>r. p_id r = pid) ps)"

text \<open>The units of one product on a list of sale items.\<close>

definition sold_qty :: "sale_item list \<Rightarrow> uuid \<Rightarrow> int" where
  "sold_qty items pid = sum_list (map quantity (filter (\<lambda>i. product_id i = pid) items))"

text \<open>A row of \<open>products\<close> after one multi-row insert of sale items at time \<open>now\<close>.\<close>

definition sell_row :: "timestamptz \<Rightarrow> sale_item list \<Rightarrow> product \<Rightarrow> product" where
  "sell_row now items r =
     (if p_id r \<in> product_id ` set items
      then r\<lparr>current_stock := current_stock r - sold_qty items (p_id r),
             total_units_sold := total_units_sold r + sold_qty items (p_id r),
             updated_at := Some now\<rparr>
      else r)"

text \<open>
  \<open>restored items r r'\<close>: \<open>r'\<close> is \<open>r\<close> with the units of \<open>items\<close> moved back from
  \<open>total_units_sold\<close> to \<open>current_stock\<close>, whatever \<open>updated_at\<close> has become.
\<close>

definition restored :: "sale_item list \<Rightarrow> product \<Rightarrow> product \<Rightarrow> bool" where
  "restored items r r' \<longleftrightarrow>
     r'\<lparr>updated_at := None\<rparr> =
       r\<lparr>current_stock := current_stock r + sold_qty items (p_id r),
         total_units_sold := total_units_sold r - sold_qty items (p_id r),
         updated_at := None\<rparr>"


section \<open>Example states\<close>

text \<open>
  A product with 12 units per batch, bought at 60.00 a batch and sold at 8.00 a unit,
  holding the 24 units of a purchase of two batches; two sale headers without items yet.
\<close>

definition example_product :: product where
  "example_product =
     \<lparr>p_id = ''P'', name = ''Candles'', description = None, unit_selling_price = 800,
      cost_per_batch = 6000, units_per_batch = 12, current_stock = 24, total_units_sold = 0,
      created_at = Some 0, updated_at = Some 1\<rparr>"

definition example_db :: db where
  "example_db =
     \<lparr>products = [example_product], stock_purchases = [],
      sales = [\<lparr>s_id = ''A'', sale_date = Some 2, total_amount = 4000, s_notes = None\<rparr>,
               \<lparr>s_id = ''B'', sale_date = Some 3, total_amount = 1600, s_notes = None\<rparr>],
      sale_items = []\<rparr>"

definition example_item_A :: sale_item where
  "example_item_A =
     \<lparr>si_id = ''IA'', sale_id = ''A'', product_id = ''P'', quantity = 5, unit_price = 800,
      subtotal = 4000\<rparr>"

definition example_item_B :: sale_item where
  "example_item_B =
     \<lparr>si_id = ''IB'', sale_id = ''B'', product_id = ''P'', quantity = 2, unit_price = 800,
      subtotal = 1600\<rparr>"

definition example_purchase :: stock_purchase where
  "example_purchase =
     \<lparr>sp_id = ''R'', sp_product_id = ''P'', batches_purchased = 2, sp_cost_per_batch = 6000,
      total_cost = 12000, units_added = 24, purchase_date = Some 7, sp_notes = None\<rparr>"

text \<open>
  A shop with a second product. Sale \<open>A\<close> then gets an item of 5 units of the first
  product, and later sale \<open>B\<close> an item of 2 units of the second.
\<close>

definition example_product_Q :: product where
  "example_product_Q =
     \<lparr>p_id = ''Q'', name = ''Soap'', description = None, unit_selling_price = 800,
      cost_per_batch = 9000, units_per_batch = 10, current_stock = 30, total_units_sold = 0,
      created_at = Some 0, updated_at = Some 1\<rparr>"

definition example_item_Q :: sale_item where
  "example_item_Q =
     \<lparr>si_id = ''IQ'', sale_id = ''B'', product_id = ''Q'', quantity = 2, unit_price = 800,
      subtotal = 1600\<rparr>"

definition example_shop :: db where
  "example_shop = example_db\<lparr>products := [example_product, example_product_Q]\<rparr>"

definition example_shop_after_A :: db where
  "example_shop_after_A =
     example_shop\<lparr>sale_items := [example_item_A],
       products := [example_product\<lparr>current_stock := 19, total_units_sold := 5,
                                    updated_at := Some 4\<rparr>,
                    example_product_Q]\<rparr>"

definition example_shop_after_B :: db where
  "example_shop_after_B =
     example_shop\<lparr>sale_items := [example_item_A, example_item_Q],
       products := [example_product\<lparr>current_stock := 19, total_units_sold := 5,
                                    updated_at := Some 4\<rparr>,
                    example_product_Q\<lparr>current_stock := 28, total_units_sold := 2,
                                      updated_at := Some 5\<rparr>]\<rparr>"

definition example_gen :: "nat \<Rightarrow> uuid" where
  "example_gen k = ''N'' @ digits_of k"


section \<open>What the statements do to the rows\<close>

lemma update_products_map:
  "update_products now SET pid ps = Inr ps' \<Longrightarrow>
   ps' = map (\<lambda>r. if p_id r = pid then update_product_updated_at now (SET r) else r) ps"
proof (induction ps arbitrary: ps')
  case Nil then show ?case by simp
next
  case (Cons r rs)
  then show ?case
    by (auto split: if_splits sum.splits simp: products_row_def)
qed

lemma update_products_row_ok:
  "update_products now SET pid ps = Inr ps' \<Longrightarrow> r \<in> set ps \<Longrightarrow> p_id r = pid \<Longrightarrow>
   products_row (update_product_updated_at now (SET r)) = Inr (update_product_updated_at now (SET r))"
proof (induction ps arbitrary: ps')
  case Nil then show ?case by simp
next
  case (Cons a rs)
  then show ?case
    by (auto split: if_splits sum.splits simp: products_row_def)
qed

lemma update_products_fails:
  "r \<in> set ps \<Longrightarrow> p_id r = pid \<Longrightarrow>
   products_row (update_product_updated_at now (SET r)) = Inl e \<Longrightarrow>
   \<exists>e'. update_products now SET pid ps = Inl e'"
proof (induction ps)
  case Nil then show ?case by simp
next
  case (Cons a rs)
  then show ?case
    by (auto split: if_splits sum.splits)
qed

lemma product_of_map:
  assumes "\<And>r. p_id (f r) = p_id r"
  shows "product_of q (map f ps) = map_option f (product_of q ps)"
  using assms by (induction ps) (auto simp: product_of_def)

lemma product_of_in_set: "product_of q ps = Some p \<Longrightarrow> p \<in> set ps \<and> p_id p = q"
  by (induction ps) (auto simp: product_of_def split: if_splits)

lemma insert_sale_item_Inr:
  assumes "insert_sale_item now NEW d = Inr d'"
  shows "sale_items d' = sale_items d @ [NEW] \<and> sales d' = sales d \<and> stock_purchases d' = stock_purchases d
    \<and> products d' = map (\<lambda>r. if p_id r = product_id NEW
         then r\<lparr>current_stock := current_stock r - quantity NEW,
                total_units_sold := total_units_sold r + quantity NEW,
                updated_at := Some now\<rparr> else r) (products d)"
  using assms
  by (auto simp: insert_sale_item_def update_stock_on_sale_def update_product_updated_at_def
      split: sum.splits if_splits dest!: update_products_map)

lemma insert_stock_purchase_Inr:
  assumes "insert_stock_purchase now NEW d = Inr d'"
  shows "stock_purchases d' = stock_purchases d @ [NEW] \<and> sales d' = sales d \<and> sale_items d' = sale_items d
    \<and> products d' = map (\<lambda>r. if p_id r = sp_product_id NEW
         then r\<lparr>current_stock := current_stock r + units_added NEW,
                updated_at := Some now\<rparr> else r) (products d)"
  using assms
  by (auto simp: insert_stock_purchase_def update_stock_on_purchase_def update_product_updated_at_def
      split: sum.splits if_splits dest!: update_products_map)

lemma sold_qty_Nil [simp]: "sold_qty [] pid = 0"
  by (simp add: sold_qty_def)

lemma sold_qty_Cons [simp]:
  "sold_qty (i # items) pid = (if product_id i = pid then quantity i else 0) + sold_qty items pid"
  by (simp add: sold_qty_def)

lemma sold_qty_nonneg: "\<forall>i \<in> set items. 0 < quantity i \<Longrightarrow> 0 \<le> sold_qty items pid"
  by (induction items) auto

lemma products_row_Inr_iff:
  "products_row r = Inr r' \<longleftrightarrow>
     r' = r \<and> numeric_10_2 (unit_selling_price r) \<and> numeric_10_2 (cost_per_batch r)
     \<and> int4 (units_per_batch r) \<and> int4 (current_stock r) \<and> int4 (total_units_sold r)
     \<and> unit_selling_price r \<ge> 0 \<and> cost_per_batch r \<ge> 0 \<and> units_per_batch r > 0
     \<and> current_stock r \<ge> 0 \<and> total_units_sold r \<ge> 0"
  by (auto simp: products_row_def)

lemma update_products_succeeds:
  "\<forall>r \<in> set ps. p_id r = pid \<longrightarrow>
      products_row (update_product_updated_at now (SET r)) = Inr (update_product_updated_at now (SET r))
   \<Longrightarrow> update_products now SET pid ps
        = Inr (map (\<lambda>r. if p_id r = pid then update_product_updated_at now (SET r) else r) ps)"
  by (induction ps) auto

lemma sale_items_row_Inr: "sale_items_row i = Inr j \<Longrightarrow> 0 < quantity i \<and> int4 (quantity i)"
  by (auto simp: sale_items_row_def split: if_splits)

lemma insert_sale_item_quantity:
  "insert_sale_item now NEW d = Inr d' \<Longrightarrow> 0 < quantity NEW \<and> int4 (quantity NEW)"
  by (auto simp: insert_sale_item_def split: sum.splits dest: sale_items_row_Inr)

lemma insert_sale_item_rows_ok:
  assumes "insert_sale_item now NEW d = Inr d'" and "\<forall>p \<in> set (products d). products_row p = Inr p"
  shows "\<forall>p \<in> set (products d'). products_row p = Inr p"
proof -
  from assms(1) obtain ps where u: "update_stock_on_sale now NEW (products d) = Inr ps"
    and ps: "products d' = ps"
    by (auto simp: insert_sale_item_def split: sum.splits if_splits)
  let ?SET = "\<lambda>r. r\<lparr>current_stock := current_stock r - quantity NEW,
               total_units_sold := total_units_sold r + quantity NEW\<rparr>"
  from u have u': "update_products now ?SET (product_id NEW) (products d) = Inr ps"
    by (simp add: update_stock_on_sale_def)
  have m: "ps = map (\<lambda>r. if p_id r = product_id NEW then update_product_updated_at now (?SET r) else r) (products d)"
    by (rule update_products_map[OF u'])
  show ?thesis
  proof
    fix p assume "p \<in> set (products d')"
    with ps m obtain r where r: "r \<in> set (products d)"
      "p = (if p_id r = product_id NEW then update_product_updated_at now (?SET r) else r)" by auto
    show "products_row p = Inr p"
    proof (cases "p_id r = product_id NEW")
      case True
      from update_products_row_ok[OF u' r(1) True] r(2) True show ?thesis by simp
    next
      case False
      with r assms(2) show ?thesis by simp
    qed
  qed
qed

lemma sold_qty_notin: "pid \<notin> product_id ` set items \<Longrightarrow> sold_qty items pid = 0"
  by (induction items) auto

lemma insert_sale_items_Inr:
  assumes "insert_sale_items now items d = Inr d'"
  shows "sale_items d' = sale_items d @ items \<and> sales d' = sales d
         \<and> stock_purchases d' = stock_purchases d
         \<and> products d' = map (sell_row now items) (products d)
         \<and> (\<forall>i \<in> set items. 0 < quantity i \<and> int4 (quantity i))"
  using assms
proof (induction items arbitrary: d)
  case Nil
  then show ?case by (simp add: insert_sale_items_def sell_row_def)
next
  case (Cons i items)
  from Cons.prems obtain d1 where
    d1: "insert_sale_item now i d = Inr d1" and rest: "insert_sale_items now items d1 = Inr d'"
    by (auto simp: insert_sale_items_def split: sum.splits)
  note s1 = insert_sale_item_Inr[OF d1] and q = insert_sale_item_quantity[OF d1]
  note IH = Cons.IH[OF rest]
  have "map (sell_row now items) (products d1) = map (sell_row now (i # items)) (products d)"
    using s1 by (auto simp: sell_row_def sold_qty_notin)
  with IH s1 q show ?case by simp
qed

lemma insert_sale_items_rows_ok:
  assumes "insert_sale_items now items d = Inr d'" and "\<forall>p \<in> set (products d). products_row p = Inr p"
  shows "\<forall>p \<in> set (products d'). products_row p = Inr p"
  using assms
proof (induction items arbitrary: d)
  case Nil
  then show ?case by (simp add: insert_sale_items_def)
next
  case (Cons i items)
  from Cons.prems(1) obtain d1 where
    d1: "insert_sale_item now i d = Inr d1" and rest: "insert_sale_items now items d1 = Inr d'"
    by (auto simp: insert_sale_items_def split: sum.splits)
  from Cons.IH[OF rest insert_sale_item_rows_ok[OF d1 Cons.prems(2)]] show ?case .
qed

lemma restore_each_ok:
  assumes "\<forall>i \<in> set items. 0 < quantity i \<and> int4 (quantity i)"
      and "\<forall>r \<in> set (products d). products_row r = Inr r"
      and "\<forall>r \<in> set (products d). int4 (current_stock r + sold_qty items (p_id r))
                                     \<and> 0 \<le> total_units_sold r - sold_qty items (p_id r)"
  shows "\<exists>ps'. restore_each clock k items d
                 = (map (\<lambda>i. (product_id i, quantity i)) items, d\<lparr>products := ps'\<rparr>)
               \<and> list_all2 (restored items) (products d) ps'"
  using assms
proof (induction items arbitrary: d k)
  case Nil
  have "list_all2 (restored []) (products d) (products d)"
    by (rule list_all2_refl) (simp add: restored_def)
  then show ?case by (intro exI[of _ "products d"]) simp
next
  case (Cons i items)
  let ?q = "quantity i" and ?pid = "product_id i"
  let ?SET = "\<lambda>r. r\<lparr>current_stock := current_stock r + ?q,
                     total_units_sold := total_units_sold r - ?q\<rparr>"
  let ?f = "\<lambda>r. if p_id r = ?pid then update_product_updated_at (clock k) (?SET r) else r"
  from Cons.prems(1) have q: "0 < ?q" "int4 ?q" and qs: "\<forall>j \<in> set items. 0 < quantity j \<and> int4 (quantity j)"
    by simp_all
  have nn: "\<And>pid. 0 \<le> sold_qty items pid" using qs by (simp add: sold_qty_nonneg)
  have ok: "\<forall>r \<in> set (products d). p_id r = ?pid \<longrightarrow>
      products_row (update_product_updated_at (clock k) (?SET r)) = Inr (update_product_updated_at (clock k) (?SET r))"
  proof (intro ballI impI)
    fix r assume r: "r \<in> set (products d)" "p_id r = ?pid"
    from Cons.prems(2) r have v: "products_row r = Inr r" by simp
    from Cons.prems(3)[rule_format, OF r(1)] r(2)
    have t: "int4 (current_stock r + (?q + sold_qty items ?pid))"
      "0 \<le> total_units_sold r - (?q + sold_qty items ?pid)" by simp_all
    from v t q nn[of ?pid]
    show "products_row (update_product_updated_at (clock k) (?SET r)) = Inr (update_product_updated_at (clock k) (?SET r))"
      by (simp add: products_row_Inr_iff update_product_updated_at_def int4_def)
  qed
  have call: "restore_stock_on_sale_delete (clock k) ?pid ?q (products d) = Inr (map ?f (products d))"
    using q update_products_succeeds[where SET = "?SET", OF ok]
    by (simp add: restore_stock_on_sale_delete_def)
  let ?d1 = "d\<lparr>products := map ?f (products d)\<rparr>"
  have v1: "\<forall>r \<in> set (products ?d1). products_row r = Inr r"
    using ok Cons.prems(2) by auto
  have t1: "\<forall>r \<in> set (products ?d1). int4 (current_stock r + sold_qty items (p_id r))
                                     \<and> 0 \<le> total_units_sold r - sold_qty items (p_id r)"
    using Cons.prems(3) by (auto simp: update_product_updated_at_def add.assoc)
  from Cons.IH[OF qs v1 t1, of "Suc k"] obtain ps' where
    r: "restore_each clock (Suc k) items ?d1 = (map (\<lambda>i. (product_id i, quantity i)) items, ?d1\<lparr>products := ps'\<rparr>)"
    and l: "list_all2 (restored items) (products ?d1) ps'" by blast
  have "list_all2 (restored (i # items)) (products d) ps'"
  proof -
    from l have "list_all2 (\<lambda>r r'. restored items (?f r) r') (products d) ps'"
      by (simp add: list_all2_map1)
    then show ?thesis
      by (rule list_all2_mono) (auto simp: restored_def update_product_updated_at_def)
  qed
  moreover have "restore_each clock k (i # items) d
                 = (map (\<lambda>i. (product_id i, quantity i)) (i # items), d\<lparr>products := ps'\<rparr>)"
    using call r by simp
  ultimately show ?case by blast
qed


text \<open>Every statement of the ledger keeps \<open>db_ok\<close>.\<close>

lemma update_products_rows_ok:
  assumes "update_products now SET pid ps = Inr ps'" and "\<forall>p \<in> set ps. products_row p = Inr p"
  shows "\<forall>p \<in> set ps'. products_row p = Inr p"
proof
  fix p assume p: "p \<in> set ps'"
  from update_products_map[OF assms(1)] p obtain r where r: "r \<in> set ps"
    "p = (if p_id r = pid then update_product_updated_at now (SET r) else r)" by auto
  show "products_row p = Inr p"
  proof (cases "p_id r = pid")
    case True
    from update_products_row_ok[OF assms(1) r(1) True] r(2) True show ?thesis by simp
  next
    case False
    with r assms(2) show ?thesis by simp
  qed
qed

lemma db_ok_insert_sale: "db_ok d \<Longrightarrow> insert_sale NEW d = Inr d' \<Longrightarrow> db_ok d'"
  by (auto simp: db_ok_def insert_sale_def split: sum.splits if_splits)

lemma db_ok_insert_sale_item:
  assumes "db_ok d" and "insert_sale_item now NEW d = Inr d'"
  shows "db_ok d'"
proof -
  from assms(1) have ok: "\<forall>p \<in> set (products d). products_row p = Inr p"
    by (simp add: db_ok_def)
  from assms(2) have row: "sale_items_row NEW = Inr NEW"
    by (auto simp: insert_sale_item_def sale_items_row_def split: sum.splits if_splits)
  from insert_sale_item_Inr[OF assms(2)] insert_sale_item_rows_ok[OF assms(2) ok] assms(1) row
  show ?thesis by (auto simp: db_ok_def)
qed

lemma db_ok_insert_stock_purchase:
  assumes "db_ok d" and "insert_stock_purchase now NEW d = Inr d'"
  shows "db_ok d'"
proof -
  from assms(1) have ok: "\<forall>p \<in> set (products d). products_row p = Inr p"
    by (simp add: db_ok_def)
  from assms(2) obtain ps where u: "update_stock_on_purchase now NEW (products d) = Inr ps"
    and e: "d' = d\<lparr>stock_purchases := stock_purchases d @ [NEW], products := ps\<rparr>"
    by (auto simp: insert_stock_purchase_def split: sum.splits if_splits)
  from update_products_rows_ok[OF u[unfolded update_stock_on_purchase_def] ok] assms(1) e
  show ?thesis by (auto simp: db_ok_def)
qed

lemma db_ok_restore:
  assumes "db_ok d" and "restore_stock_on_sale_delete now pid q (products d) = Inr ps"
  shows "db_ok (d\<lparr>products := ps\<rparr>)"
proof -
  from assms(1) have ok: "\<forall>p \<in> set (products d). products_row p = Inr p"
    by (simp add: db_ok_def)
  from assms(2) have u: "update_products now
             (\<lambda>r. r\<lparr>current_stock := current_stock r + q,
                     total_units_sold := total_units_sold r - q\<rparr>) pid (products d) = Inr ps"
    by (simp add: restore_stock_on_sale_delete_def split: if_splits)
  from update_products_rows_ok[OF u ok] assms(1) show ?thesis by (auto simp: db_ok_def)
qed

lemma db_ok_delete_sale: "db_ok d \<Longrightarrow> db_ok (delete_sale sid d)"
  by (auto simp: db_ok_def delete_sale_def)


section \<open>Sale items and the counters\<close>

text \<open>
  C1. Along any history of sale-item inserts that the database accepts, the rows are
  added to \<open>sale_items\<close> and, for every product, \<open>current_stock\<close> has gone down and
  \<open>total_units_sold\<close> has gone up by exactly the sum of the quantities of the rows that
  refer to it. An insert that raises yields no state: the row and the counter update
  come together or not at all.
\<close>

theorem sale_item_creations_move_counters:
  assumes "inserts insert_sale_item rows d = Inr d'"
      and "product_of pid (products d) = Some p"
  shows "\<exists>p'. product_of pid (products d') = Some p'
           \<and> current_stock p' = current_stock p
                - sum_list (map quantity (filter (\<lambda>r. product_id r = pid) (map snd rows)))
           \<and> total_units_sold p' = total_units_sold p
                + sum_list (map quantity (filter (\<lambda>r. product_id r = pid) (map snd rows)))
           \<and> sale_items d' = sale_items d @ map snd rows"
  using assms
proof (induction rows arbitrary: d p)
  case Nil
  then show ?case by simp
next
  case (Cons a rows)
  obtain now NEW where a: "a = (now, NEW)" by (cases a)
  from Cons.prems(1) a obtain d1 where
    d1: "insert_sale_item now NEW d = Inr d1" and rest: "inserts insert_sale_item rows d1 = Inr d'"
    by (auto split: sum.splits)
  let ?f = "\<lambda>r. if p_id r = product_id NEW
         then r\<lparr>current_stock := current_stock r - quantity NEW,
                total_units_sold := total_units_sold r + quantity NEW,
                updated_at := Some now\<rparr> else r"
  from insert_sale_item_Inr[OF d1] have ps: "products d1 = map ?f (products d)"
    and si: "sale_items d1 = sale_items d @ [NEW]" by simp_all
  have "product_of pid (products d1) = Some (?f p)"
    unfolding ps using Cons.prems(2) by (subst product_of_map) auto
  from Cons.IH[OF rest this] obtain p' where
    "product_of pid (products d') = Some p'"
    "current_stock p' = current_stock (?f p)
                - sum_list (map quantity (filter (\<lambda>r. product_id r = pid) (map snd rows)))"
    "total_units_sold p' = total_units_sold (?f p)
                + sum_list (map quantity (filter (\<lambda>r. product_id r = pid) (map snd rows)))"
    "sale_items d' = sale_items d1 @ map snd rows" by blast
  moreover from product_of_in_set[OF Cons.prems(2)] have "p_id p = pid" by simp
  ultimately show ?case using a si by auto
qed

theorem sale_item_creations_move_counters_witness:
  "inserts insert_sale_item [(4, example_item_A), (5, example_item_B)] example_db
     = Inr (example_db\<lparr>sale_items := [example_item_A, example_item_B],
              products := [example_product\<lparr>current_stock := 17, total_units_sold := 7,
                                           updated_at := Some 5\<rparr>]\<rparr>)
   \<and> product_of ''P'' (products example_db) = Some example_product
   \<and> (\<exists>p'. product_of ''P'' [example_product\<lparr>current_stock := 17, total_units_sold := 7,
                                               updated_at := Some 5\<rparr>] = Some p'
           \<and> current_stock p' = 24 - 7 \<and> total_units_sold p' = 0 + 7)"
proof -
  have h1: "inserts insert_sale_item [(4, example_item_A), (5, example_item_B)] example_db
     = Inr (example_db\<lparr>sale_items := [example_item_A, example_item_B],
              products := [example_product\<lparr>current_stock := 17, total_units_sold := 7,
                                           updated_at := Some 5\<rparr>]\<rparr>)"
    by code_simp
  have h2: "product_of ''P'' (products example_db) = Some example_product"
    by code_simp
  have c: "\<exists>p'. product_of ''P'' [example_product\<lparr>current_stock := 17, total_units_sold := 7,
                                               updated_at := Some 5\<rparr>] = Some p'
           \<and> current_stock p' = 24 - 7 \<and> total_units_sold p' = 0 + 7"
    using sale_item_creations_move_counters[OF h1 h2]
    by (auto simp: example_product_def example_item_A_def example_item_B_def)
  show ?thesis by (intro conjI h1 h2 c)
qed

text \<open>
  C3, as the schema has it. The \<open>CHECK (current_stock >= 0)\<close> of \<open>products\<close> is
  enforced inside the insert's trigger: whenever the product's stock is less than the
  quantity of the sale item, the insert raises, so no state with a negative stock results.
\<close>

theorem oversell_is_rejected:
  assumes "product_of (product_id NEW) (products d) = Some p"
      and "current_stock p < quantity NEW"
  shows "\<exists>e. insert_sale_item now NEW d = Inl e"
proof -
  from product_of_in_set[OF assms(1)]
  have m: "p \<in> set (products d)" "p_id p = product_id NEW" by simp_all
  let ?SET = "\<lambda>r. r\<lparr>current_stock := current_stock r - quantity NEW,
               total_units_sold := total_units_sold r + quantity NEW\<rparr>"
  have "\<exists>e. products_row (update_product_updated_at now (?SET p)) = Inl e"
    using assms(2) by (simp add: products_row_def update_product_updated_at_def)
  then obtain e where "products_row (update_product_updated_at now (?SET p)) = Inl e" ..
  from update_products_fails[where SET = "?SET", OF m this]
  have "\<exists>e'. update_stock_on_sale now NEW (products d) = Inl e'"
    by (simp add: update_stock_on_sale_def)
  then show ?thesis
    by (auto simp: insert_sale_item_def split: sum.splits)
qed

theorem oversell_is_rejected_witness:
  "product_of (product_id (example_item_A\<lparr>quantity := 25, subtotal := 20000\<rparr>)) (products example_db)
     = Some example_product
   \<and> current_stock example_product < quantity (example_item_A\<lparr>quantity := 25, subtotal := 20000\<rparr>)
   \<and> (\<exists>e. insert_sale_item 4 (example_item_A\<lparr>quantity := 25, subtotal := 20000\<rparr>) example_db = Inl e)"
proof -
  have h1: "product_of (product_id (example_item_A\<lparr>quantity := 25, subtotal := 20000\<rparr>))
              (products example_db) = Some example_product"
    by code_simp
  have h2: "current_stock example_product
              < quantity (example_item_A\<lparr>quantity := 25, subtotal := 20000\<rparr>)"
    by code_simp
  from oversell_is_rejected[OF h1 h2, of 4] h1 h2 show ?thesis by blast
qed

theorem oversell_counterexample:
  "current_stock example_product = 24
   \<and> insert_sale_item 4 (example_item_A\<lparr>quantity := 25, subtotal := 20000\<rparr>) example_db
       = Inl check_violation"
  by code_simp


section \<open>Stock purchases and the stock counter\<close>

text \<open>
  C4, as the triggers have it. Along any history of stock-purchase inserts that the
  database accepts, the rows are added to \<open>stock_purchases\<close> and every product's
  \<open>current_stock\<close> has grown by the sum of \<open>units_added\<close> of the rows that refer to it.
  Besides \<open>current_stock\<close>, the \<open>BEFORE UPDATE\<close> trigger of \<open>products\<close> sets
  \<open>updated_at\<close> to the time of the last such purchase; every other field is as before.
\<close>

theorem purchases_add_to_stock:
  assumes "inserts insert_stock_purchase rows d = Inr d'"
      and "product_of pid (products d) = Some p"
  shows "product_of pid (products d') =
           Some (p\<lparr>current_stock := current_stock p
                       + sum_list (map units_added (filter (\<lambda>r. sp_product_id r = pid) (map snd rows))),
                   updated_at := (case filter (\<lambda>(t, r). sp_product_id r = pid) rows of
                                    [] \<Rightarrow> updated_at p
                                  | hits \<Rightarrow> Some (fst (last hits)))\<rparr>)
         \<and> stock_purchases d' = stock_purchases d @ map snd rows"
  using assms
proof (induction rows arbitrary: d p)
  case Nil
  then show ?case by simp
next
  case (Cons a rows)
  obtain now NEW where a: "a = (now, NEW)" by (cases a)
  from Cons.prems(1) a obtain d1 where
    d1: "insert_stock_purchase now NEW d = Inr d1"
    and rest: "inserts insert_stock_purchase rows d1 = Inr d'"
    by (auto split: sum.splits)
  let ?f = "\<lambda>r. if p_id r = sp_product_id NEW
         then r\<lparr>current_stock := current_stock r + units_added NEW,
                updated_at := Some now\<rparr> else r"
  from insert_stock_purchase_Inr[OF d1] have ps: "products d1 = map ?f (products d)"
    and si: "stock_purchases d1 = stock_purchases d @ [NEW]" by simp_all
  have f: "product_of pid (products d1) = Some (?f p)"
    unfolding ps using Cons.prems(2) by (subst product_of_map) auto
  from product_of_in_set[OF Cons.prems(2)] have pid: "p_id p = pid" by simp
  note IH = Cons.IH[OF rest f]
  show ?case
  proof (cases "sp_product_id NEW = pid")
    case True
    with IH pid a si show ?thesis
      by (simp split: list.splits)
  next
    case False
    with IH pid a si show ?thesis by simp
  qed
qed

theorem purchases_add_to_stock_witness:
  "inserts insert_stock_purchase [(7, example_purchase)] example_db
     = Inr (example_db\<lparr>stock_purchases := [example_purchase],
              products := [example_product\<lparr>current_stock := 48, updated_at := Some 7\<rparr>]\<rparr>)
   \<and> product_of ''P'' (products example_db) = Some example_product
   \<and> product_of ''P'' [example_product\<lparr>current_stock := 48, updated_at := Some 7\<rparr>]
       = Some (example_product\<lparr>current_stock := 24 + 24, updated_at := Some 7\<rparr>)"
proof -
  have h1: "inserts insert_stock_purchase [(7, example_purchase)] example_db
     = Inr (example_db\<lparr>stock_purchases := [example_purchase],
              products := [example_product\<lparr>current_stock := 48, updated_at := Some 7\<rparr>]\<rparr>)"
    by code_simp
  have h2: "product_of ''P'' (products example_db) = Some example_product"
    by code_simp
  have c: "product_of ''P'' [example_product\<lparr>current_stock := 48, updated_at := Some 7\<rparr>]
       = Some (example_product\<lparr>current_stock := 24 + 24, updated_at := Some 7\<rparr>)"
    using purchases_add_to_stock[OF h1 h2]
    by (simp add: example_product_def example_purchase_def)
  show ?thesis by (intro conjI h1 h2 c)
qed

theorem purchase_touches_updated_at_counterexample:
  "map updated_at (products example_db) = [Some 1]
   \<and> map_sum id (\<lambda>d. map updated_at (products d)) (insert_stock_purchase 7 example_purchase example_db)
       = Inr [Some 7]"
  by code_simp

section \<open>The restoration function\<close>

text \<open>
  C10, as the schema has it. A call of \<open>restore_stock_on_sale_delete\<close> that returns has
  rewritten exactly the rows whose id is the argument: \<open>current_stock\<close> up by the
  quantity, \<open>total_units_sold\<close> down by it, \<open>updated_at\<close> set to the time of the call,
  every other field and every other row as before. The body has no guard of its own,
  but its \<open>UPDATE\<close> is subject to the \<open>CHECK\<close> constraints of \<open>products\<close>: when the
  quantity would take \<open>total_units_sold\<close> or \<open>current_stock\<close> of such a row below zero,
  the call raises and changes nothing.
\<close>

theorem restore_frame:
  "(restore_stock_on_sale_delete now pid q ps = Inr ps' \<longrightarrow>
      ps' = map (\<lambda>r. if p_id r = pid
                      then r\<lparr>current_stock := current_stock r + q,
                             total_units_sold := total_units_sold r - q,
                             updated_at := Some now\<rparr>
                      else r) ps)
   \<and> ((\<exists>r \<in> set ps. p_id r = pid \<and> (total_units_sold r - q < 0 \<or> current_stock r + q < 0)) \<longrightarrow>
        (\<exists>e. restore_stock_on_sale_delete now pid q ps = Inl e))"
proof (intro conjI impI)
  assume "restore_stock_on_sale_delete now pid q ps = Inr ps'"
  then show "ps' = map (\<lambda>r. if p_id r = pid
                      then r\<lparr>current_stock := current_stock r + q,
                             total_units_sold := total_units_sold r - q,
                             updated_at := Some now\<rparr>
                      else r) ps"
    by (auto simp: restore_stock_on_sale_delete_def update_product_updated_at_def
        split: if_splits dest!: update_products_map)
next
  assume "\<exists>r \<in> set ps. p_id r = pid \<and> (total_units_sold r - q < 0 \<or> current_stock r + q < 0)"
  then obtain r where r: "r \<in> set ps" "p_id r = pid"
    "total_units_sold r - q < 0 \<or> current_stock r + q < 0" by blast
  let ?SET = "\<lambda>r. r\<lparr>current_stock := current_stock r + q,
                     total_units_sold := total_units_sold r - q\<rparr>"
  have "\<exists>e. products_row (update_product_updated_at now (?SET r)) = Inl e"
    using r(3) by (auto simp: products_row_def update_product_updated_at_def)
  then obtain e where "products_row (update_product_updated_at now (?SET r)) = Inl e" ..
  from update_products_fails[where SET = "?SET", OF r(1,2) this]
  show "\<exists>e. restore_stock_on_sale_delete now pid q ps = Inl e"
    by (auto simp: restore_stock_on_sale_delete_def)
qed

theorem restore_frame_witness:
  "restore_stock_on_sale_delete 9 ''P'' 5
       [example_product\<lparr>current_stock := 19, total_units_sold := 5\<rparr>]
     = Inr [example_product\<lparr>current_stock := 24, total_units_sold := 0, updated_at := Some 9\<rparr>]
   \<and> [example_product\<lparr>current_stock := 24, total_units_sold := 0, updated_at := Some 9\<rparr>]
       = map (\<lambda>r. if p_id r = ''P''
                   then r\<lparr>current_stock := current_stock r + 5,
                          total_units_sold := total_units_sold r - 5,
                          updated_at := Some 9\<rparr>
                   else r) [example_product\<lparr>current_stock := 19, total_units_sold := 5\<rparr>]
   \<and> (\<exists>r \<in> set [example_product]. p_id r = ''P''
         \<and> (total_units_sold r - 1 < 0 \<or> current_stock r + 1 < 0))
   \<and> (\<exists>e. restore_stock_on_sale_delete 9 ''P'' 1 [example_product] = Inl e)"
proof -
  have h1: "restore_stock_on_sale_delete 9 ''P'' 5
              [example_product\<lparr>current_stock := 19, total_units_sold := 5\<rparr>]
     = Inr [example_product\<lparr>current_stock := 24, total_units_sold := 0, updated_at := Some 9\<rparr>]"
    by code_simp
  have c1: "[example_product\<lparr>current_stock := 24, total_units_sold := 0, updated_at := Some 9\<rparr>]
       = map (\<lambda>r. if p_id r = ''P''
                   then r\<lparr>current_stock := current_stock r + 5,
                          total_units_sold := total_units_sold r - 5,
                          updated_at := Some 9\<rparr>
                   else r) [example_product\<lparr>current_stock := 19, total_units_sold := 5\<rparr>]"
    using restore_frame[of 9 "''P''" 5 "[example_product\<lparr>current_stock := 19, total_units_sold := 5\<rparr>]"
        "[example_product\<lparr>current_stock := 24, total_units_sold := 0, updated_at := Some 9\<rparr>]"] h1
    by blast
  have h2: "\<exists>r \<in> set [example_product]. p_id r = ''P''
         \<and> (total_units_sold r - 1 < 0 \<or> current_stock r + 1 < 0)"
    by (simp add: example_product_def)
  have c: "\<exists>e. restore_stock_on_sale_delete 9 ''P'' 1 [example_product] = Inl e"
    using restore_frame[of 9 "''P''" 1 "[example_product]"] h2 by blast
  show ?thesis by (intro conjI h1 c1 h2 c)
qed

theorem restore_below_zero_counterexample:
  "total_units_sold example_product = 0
   \<and> restore_stock_on_sale_delete 9 ''P'' 1 [example_product] = Inl check_violation"
  by code_simp


lemma restore_each_log:
  "\<exists>ps'. restore_each clock k items d
            = (map (\<lambda>i. (product_id i, quantity i)) items, d\<lparr>products := ps'\<rparr>)"
proof (induction items arbitrary: d k)
  case Nil
  show ?case by (intro exI[of _ "products d"]) simp
next
  case (Cons i items)
  show ?case
  proof (cases "restore_stock_on_sale_delete (clock k) (product_id i) (quantity i) (products d)")
    case (Inl e)
    with Cons[of "Suc k" d] show ?thesis by auto
  next
    case (Inr ps)
    with Cons[of "Suc k" "d\<lparr>products := ps\<rparr>"] show ?thesis by auto
  qed
qed

lemma handleDelete_calls:
  "\<exists>ps'. handleDelete True clock sid d
            = (map (\<lambda>i. (product_id i, quantity i)) (sale_items_of sid d), OnSuccess,
               delete_sale sid (d\<lparr>products := ps'\<rparr>))"
proof -
  from restore_each_log[of clock 0 "sale_items_of sid d" d] obtain ps' where
    "restore_each clock 0 (sale_items_of sid d) d
       = (map (\<lambda>i. (product_id i, quantity i)) (sale_items_of sid d), d\<lparr>products := ps'\<rparr>)" ..
  then show ?thesis
    by (intro exI[of _ ps']) (simp add: handleDelete_def sale_items_of_def)
qed

lemma handleDelete_restored:
  assumes "db_ok d"
      and "\<forall>r \<in> set (products d).
             int4 (current_stock r + sold_qty (sale_items_of sid d) (p_id r))
             \<and> sold_qty (sale_items_of sid d) (p_id r) \<le> total_units_sold r"
  shows "list_all2 (restored (sale_items_of sid d)) (products d)
           (products (snd (snd (handleDelete True clock sid d))))"
proof -
  let ?items = "sale_items_of sid d"
  from assms(1) have ok: "\<forall>r \<in> set (products d). products_row r = Inr r"
    and si: "\<forall>i \<in> set (sale_items d). sale_items_row i = Inr i"
    by (simp_all add: db_ok_def)
  have q: "\<forall>i \<in> set ?items. 0 < quantity i \<and> int4 (quantity i)"
    using si by (auto simp: sale_items_of_def dest: sale_items_row_Inr)
  have tg: "\<forall>r \<in> set (products d). int4 (current_stock r + sold_qty ?items (p_id r))
                                     \<and> 0 \<le> total_units_sold r - sold_qty ?items (p_id r)"
    using assms(2) by simp
  from restore_each_ok[OF q ok tg, of clock 0] obtain ps' where
    re: "restore_each clock 0 ?items d
           = (map (\<lambda>i. (product_id i, quantity i)) ?items, d\<lparr>products := ps'\<rparr>)"
    and l: "list_all2 (restored ?items) (products d) ps'" by blast
  have "products (snd (snd (handleDelete True clock sid d))) = ps'"
    using re by (simp add: handleDelete_def sale_items_of_def delete_sale_def)
  with l show ?thesis by simp
qed

lemma restored_explicit:
  "restored items r r' \<longleftrightarrow>
     r' = r\<lparr>current_stock := current_stock r + sold_qty items (p_id r),
            total_units_sold := total_units_sold r - sold_qty items (p_id r),
            updated_at := updated_at r'\<rparr>"
proof
  assume "restored items r r'"
  then have "r'\<lparr>updated_at := None\<rparr>\<lparr>updated_at := updated_at r'\<rparr> =
       r\<lparr>current_stock := current_stock r + sold_qty items (p_id r),
         total_units_sold := total_units_sold r - sold_qty items (p_id r),
         updated_at := None\<rparr>\<lparr>updated_at := updated_at r'\<rparr>"
    unfolding restored_def by (rule arg_cong)
  then show "r' = r\<lparr>current_stock := current_stock r + sold_qty items (p_id r),
            total_units_sold := total_units_sold r - sold_qty items (p_id r),
            updated_at := updated_at r'\<rparr>" by simp
next
  assume e: "r' = r\<lparr>current_stock := current_stock r + sold_qty items (p_id r),
            total_units_sold := total_units_sold r - sold_qty items (p_id r),
            updated_at := updated_at r'\<rparr>"
  show "restored items r r'"
    unfolding restored_def by (subst e) simp
qed

lemma counters_of_restored:
  assumes "list_all2 (restored items) ps ps'"
  shows "counters_of pid ps'
           = map (\<lambda>(c, t). (c + sold_qty items pid, t - sold_qty items pid)) (counters_of pid ps)"
  using assms
proof (induction rule: list_all2_induct)
  case Nil
  show ?case by (simp add: counters_of_def)
next
  case (Cons r rs r' rs')
  from Cons(1) have e: "r' = r\<lparr>current_stock := current_stock r + sold_qty items (p_id r),
            total_units_sold := total_units_sold r - sold_qty items (p_id r),
            updated_at := updated_at r'\<rparr>" by (simp add: restored_explicit)
  have f: "p_id r' = p_id r" "current_stock r' = current_stock r + sold_qty items (p_id r)"
    "total_units_sold r' = total_units_sold r - sold_qty items (p_id r)"
    by (subst e, simp)+
  with Cons(3) show ?case by (simp add: counters_of_def)
qed

lemma counters_of_sell_row:
  "counters_of pid (map (sell_row now items) ps)
     = map (\<lambda>(c, t). (c - sold_qty items pid, t + sold_qty items pid)) (counters_of pid ps)"
  by (induction ps) (auto simp: counters_of_def sell_row_def sold_qty_notin)

lemma handleDelete_back_to_before:
  assumes d1: "db_ok d1"
      and ins: "insert_sale_items now items d1 = Inr d2"
      and d: "db_ok d"
      and sel: "sale_items_of sid d = items"
      and same: "\<forall>pid \<in> product_id ` set items.
                   counters_of pid (products d) = counters_of pid (products d2)"
      and pid: "pid \<in> product_id ` set items"
  shows "counters_of pid (products (snd (snd (handleDelete True clock sid d))))
           = counters_of pid (products d1)"
proof -
  note c = insert_sale_items_Inr[OF ins]
  from c have ps2: "products d2 = map (sell_row now items) (products d1)" by simp
  from d1 have ok1: "\<forall>r \<in> set (products d1). products_row r = Inr r" by (simp add: db_ok_def)
  from d have ok: "\<forall>r \<in> set (products d). products_row r = Inr r" by (simp add: db_ok_def)
  have tg: "\<forall>r \<in> set (products d).
             int4 (current_stock r + sold_qty (sale_items_of sid d) (p_id r))
             \<and> sold_qty (sale_items_of sid d) (p_id r) \<le> total_units_sold r"
  proof
    fix r assume r: "r \<in> set (products d)"
    from ok r have v: "int4 (current_stock r)" "0 \<le> total_units_sold r"
      by (simp_all add: products_row_Inr_iff)
    show "int4 (current_stock r + sold_qty (sale_items_of sid d) (p_id r))
             \<and> sold_qty (sale_items_of sid d) (p_id r) \<le> total_units_sold r"
    proof (cases "p_id r \<in> product_id ` set items")
      case False
      with v show ?thesis by (simp add: sel sold_qty_notin)
    next
      case True
      from r have "(current_stock r, total_units_sold r) \<in> set (counters_of (p_id r) (products d))"
        by (auto simp: counters_of_def)
      moreover from same True
      have "counters_of (p_id r) (products d) = counters_of (p_id r) (products d2)" by blast
      ultimately have "(current_stock r, total_units_sold r)
                             \<in> set (counters_of (p_id r) (products d2))" by simp
      then have "(current_stock r, total_units_sold r)
          \<in> set (map (\<lambda>(c, t). (c - sold_qty items (p_id r), t + sold_qty items (p_id r)))
                     (counters_of (p_id r) (products d1)))"
        by (simp only: ps2 counters_of_sell_row)
      then obtain r1 where r1: "r1 \<in> set (products d1)"
        "current_stock r = current_stock r1 - sold_qty items (p_id r)"
        "total_units_sold r = total_units_sold r1 + sold_qty items (p_id r)"
        by (auto simp: counters_of_def)
      from ok1 r1(1) have "int4 (current_stock r1)" "0 \<le> total_units_sold r1"
        by (simp_all add: products_row_Inr_iff)
      with r1(2,3) show ?thesis by (simp add: sel)
    qed
  qed
  from handleDelete_restored[OF d tg, of clock]
  have "list_all2 (restored items) (products d)
           (products (snd (snd (handleDelete True clock sid d))))" by (simp add: sel)
  from counters_of_restored[OF this, of pid]
  have "counters_of pid (products (snd (snd (handleDelete True clock sid d))))
          = map (\<lambda>(c, t). (c + sold_qty items pid, t - sold_qty items pid))
              (counters_of pid (products d2))"
    using same pid by simp
  also have "\<dots> = counters_of pid (products d1)"
    by (simp add: ps2 counters_of_sell_row split_def o_def)
  finally show ?thesis .
qed

section \<open>Deleting a sale\<close>

text \<open>
  C2, as the compensation works. \<open>handleDelete\<close> calls the restoration function once
  for every sale item of the sale, in the order of the rows, and then deletes the sale,
  which removes its items; the calls change nothing but \<open>products\<close>. In a database that
  satisfies its constraints, when for every product the stock plus the sale's units of
  it is still an \<open>integer\<close> and no more units are given back than \<open>total_units_sold\<close>
  holds, every call is accepted and every row of \<open>products\<close> ends with the sale's
  units of it moved from \<open>total_units_sold\<close> back to \<open>current_stock\<close>, and otherwise as
  it was but for \<open>updated_at\<close>. So whenever the sale still has the items it was created
  with and the counters of their products are what that creation left, whatever else has
  been written since, these counters are again what they were immediately before the
  items were created.
\<close>

theorem sale_deletion_compensates:
  "(\<exists>ps'. handleDelete True clock sid d
            = (map (\<lambda>i. (product_id i, quantity i)) (sale_items_of sid d), OnSuccess,
               delete_sale sid (d\<lparr>products := ps'\<rparr>)))
   \<and> (db_ok d
        \<and> (\<forall>r \<in> set (products d).
              int4 (current_stock r + sold_qty (sale_items_of sid d) (p_id r))
              \<and> sold_qty (sale_items_of sid d) (p_id r) \<le> total_units_sold r)
       \<longrightarrow> list_all2
             (\<lambda>r r'. r' = r\<lparr>current_stock := current_stock r
                                 + sold_qty (sale_items_of sid d) (p_id r),
                               total_units_sold := total_units_sold r
                                 - sold_qty (sale_items_of sid d) (p_id r),
                               updated_at := updated_at r'\<rparr>)
             (products d) (products (snd (snd (handleDelete True clock sid d)))))
   \<and> (db_ok d1 \<and> insert_sale_items now items d1 = Inr d2
        \<and> db_ok d \<and> sale_items_of sid d = items
        \<and> (\<forall>pid \<in> product_id ` set items.
              counters_of pid (products d) = counters_of pid (products d2))
       \<longrightarrow> (\<forall>pid \<in> product_id ` set items.
              counters_of pid (products (snd (snd (handleDelete True clock sid d))))
                = counters_of pid (products d1)))"
proof (intro conjI impI ballI)
  show "\<exists>ps'. handleDelete True clock sid d
            = (map (\<lambda>i. (product_id i, quantity i)) (sale_items_of sid d), OnSuccess,
               delete_sale sid (d\<lparr>products := ps'\<rparr>))"
    by (rule handleDelete_calls)
next
  assume a: "db_ok d
        \<and> (\<forall>r \<in> set (products d).
              int4 (current_stock r + sold_qty (sale_items_of sid d) (p_id r))
              \<and> sold_qty (sale_items_of sid d) (p_id r) \<le> total_units_sold r)"
  then have "list_all2 (restored (sale_items_of sid d)) (products d)
           (products (snd (snd (handleDelete True clock sid d))))"
    by (intro handleDelete_restored) simp_all
  then show "list_all2
             (\<lambda>r r'. r' = r\<lparr>current_stock := current_stock r
                                 + sold_qty (sale_items_of sid d) (p_id r),
                               total_units_sold := total_units_sold r
                                 - sold_qty (sale_items_of sid d) (p_id r),
                               updated_at := updated_at r'\<rparr>)
             (products d) (products (snd (snd (handleDelete True clock sid d))))"
    by (rule list_all2_mono) (simp add: restored_explicit)
next
  fix pid
  assume a: "db_ok d1 \<and> insert_sale_items now items d1 = Inr d2
        \<and> db_ok d \<and> sale_items_of sid d = items
        \<and> (\<forall>pid \<in> product_id ` set items.
              counters_of pid (products d) = counters_of pid (products d2))"
    and pid: "pid \<in> product_id ` set items"
  from a have 1: "db_ok d1" and 2: "insert_sale_items now items d1 = Inr d2"
    and 3: "db_ok d" and 4: "sale_items_of sid d = items"
    and 5: "\<forall>pid \<in> product_id ` set items.
              counters_of pid (products d) = counters_of pid (products d2)" by blast+
  show "counters_of pid (products (snd (snd (handleDelete True clock sid d))))
                = counters_of pid (products d1)"
    by (rule handleDelete_back_to_before[OF 1 2 3 4 5 pid])
qed

theorem sale_deletion_compensates_witness:
  "db_ok example_shop \<and> db_ok example_shop_after_B
   \<and> insert_sale_items 4 [example_item_A] example_shop = Inr example_shop_after_A
   \<and> sale_items_of ''A'' example_shop_after_B = [example_item_A]
   \<and> counters_of ''P'' (products example_shop_after_B)
       = counters_of ''P'' (products example_shop_after_A)
   \<and> (\<exists>ps'. handleDelete True (\<lambda>k. 9) ''A'' example_shop_after_B
              = ([(''P'', 5)], OnSuccess,
                 delete_sale ''A'' (example_shop_after_B\<lparr>products := ps'\<rparr>)))
   \<and> list_all2
        (\<lambda>r r'. r' = r\<lparr>current_stock := current_stock r + sold_qty [example_item_A] (p_id r),
                          total_units_sold := total_units_sold r
                            - sold_qty [example_item_A] (p_id r),
                          updated_at := updated_at r'\<rparr>)
        (products example_shop_after_B)
        (products (snd (snd (handleDelete True (\<lambda>k. 9) ''A'' example_shop_after_B))))
   \<and> counters_of ''P''
         (products (snd (snd (handleDelete True (\<lambda>k. 9) ''A'' example_shop_after_B))))
       = counters_of ''P'' (products example_shop)
   \<and> counters_of ''P'' (products example_shop) = [(24, 0)]"
proof -
  note t = sale_deletion_compensates[of "\<lambda>k. 9" "''A''" example_shop_after_B
      example_shop 4 "[example_item_A]" example_shop_after_A]
  have h1: "db_ok example_shop" by code_simp
  have h2: "db_ok example_shop_after_B" by code_simp
  have h3: "insert_sale_items 4 [example_item_A] example_shop = Inr example_shop_after_A"
    by code_simp
  have h4: "sale_items_of ''A'' example_shop_after_B = [example_item_A]" by code_simp
  have h5: "counters_of ''P'' (products example_shop_after_B)
              = counters_of ''P'' (products example_shop_after_A)" by code_simp
  have h5': "\<forall>pid \<in> product_id ` set [example_item_A].
               counters_of pid (products example_shop_after_B)
                 = counters_of pid (products example_shop_after_A)"
    using h5 by (simp add: example_item_A_def)
  have h6: "\<forall>r \<in> set (products example_shop_after_B).
              int4 (current_stock r + sold_qty (sale_items_of ''A'' example_shop_after_B) (p_id r))
              \<and> sold_qty (sale_items_of ''A'' example_shop_after_B) (p_id r) \<le> total_units_sold r"
    by code_simp
  have a: "\<exists>ps'. handleDelete True (\<lambda>k. 9) ''A'' example_shop_after_B
              = ([(''P'', 5)], OnSuccess,
                 delete_sale ''A'' (example_shop_after_B\<lparr>products := ps'\<rparr>))"
    using t by (simp add: h4 example_item_A_def)
  have b: "list_all2
        (\<lambda>r r'. r' = r\<lparr>current_stock := current_stock r + sold_qty [example_item_A] (p_id r),
                          total_units_sold := total_units_sold r
                            - sold_qty [example_item_A] (p_id r),
                          updated_at := updated_at r'\<rparr>)
        (products example_shop_after_B)
        (products (snd (snd (handleDelete True (\<lambda>k. 9) ''A'' example_shop_after_B))))"
    using t h2 h6 unfolding h4 by blast
  have p: "''P'' \<in> product_id ` set [example_item_A]" by (simp add: example_item_A_def)
  have c: "counters_of ''P''
         (products (snd (snd (handleDelete True (\<lambda>k. 9) ''A'' example_shop_after_B))))
       = counters_of ''P'' (products example_shop)"
    using t h1 h2 h3 h4 h5' p by blast
  have v: "counters_of ''P'' (products example_shop) = [(24, 0)]" by code_simp
  show ?thesis by (intro conjI h1 h2 h3 h4 h5 a b c v)
qed

text \<open>
  The handler does not look at what a call returns. Where the table's constraints refuse
  a call, here 5 units given back to a product whose \<open>total_units_sold\<close> is 0, the call
  is still made, the counters stay, and the sale is deleted all the same.
\<close>

lemma handleDelete_ignores_refused_call:
  "db_ok (example_db\<lparr>sale_items := [example_item_A]\<rparr>)
   \<and> handleDelete True (\<lambda>k. 9) ''A'' (example_db\<lparr>sale_items := [example_item_A]\<rparr>)
       = ([(''P'', 5)], OnSuccess,
          example_db\<lparr>sales := [\<lparr>s_id = ''B'', sale_date = Some 3, total_amount = 1600,
                                  s_notes = None\<rparr>]\<rparr>)"
  by code_simp

theorem sale_deletion_after_other_sale_counterexample:
  "map (\<lambda>p. (current_stock p, total_units_sold p)) (products example_db) = [(24, 0)]
   \<and> (case insert_sale_item 4 example_item_A example_db of
          Inr d1 \<Rightarrow> (case insert_sale_item 5 example_item_B d1 of
             Inr d2 \<Rightarrow> map (\<lambda>p. (current_stock p, total_units_sold p))
                        (products (snd (snd (handleDelete True (\<lambda>k. 6) ''A'' d2))))
           | Inl e \<Rightarrow> [])
        | Inl e \<Rightarrow> []) = [(22, 2)]"
  by code_simp


lemma validateStock_valid:
  "fst (validateStock ps lineItems) \<longleftrightarrow>
     \<not> (\<exists>item \<in> set lineItems. \<exists>p. product_of (li_product_id item) ps = Some p
                                   \<and> li_quantity item > current_stock p)"
  by (induction lineItems) (auto split: option.splits)

lemma validateStock_message:
  "\<not> fst (validateStock ps lineItems) \<Longrightarrow>
     \<exists>item \<in> set lineItems. \<exists>p. product_of (li_product_id item) ps = Some p
        \<and> li_quantity item > current_stock p
        \<and> snd (validateStock ps lineItems) = not_enough_stock p item"
  by (induction lineItems) (auto split: option.splits if_splits)

lemma RecordSale_handleSubmit_Rejected:
  "(\<exists>msg. fst (RecordSale_handleSubmit now1 now2 gen ps lineItems notes_in d) = Rejected msg)
     \<longleftrightarrow> \<not> fst (validateStock ps lineItems) \<or> (\<exists>item \<in> set lineItems. li_product_id item = [])"
  by (auto simp: RecordSale_handleSubmit_def Let_def split: sum.splits option.splits)

section \<open>Rejecting a sale before any write\<close>

text \<open>
  C7. \<open>handleSubmit\<close> of \<open>RecordSale\<close> alerts and returns before any request exactly
  when some line item asks for more than the \<open>current_stock\<close> of its product in the
  snapshot, or some line item has no product selected. Whenever it does so the database
  is as it was. When a line item asks for too much, the alert names the product of the
  first such line and gives its available and requested quantities.
\<close>

theorem sale_rejected_before_write:
  "((\<exists>msg. fst (RecordSale_handleSubmit now1 now2 gen ps lineItems notes_in d) = Rejected msg)
      \<longleftrightarrow> (\<exists>item \<in> set lineItems.
             (\<exists>p. product_of (li_product_id item) ps = Some p \<and> li_quantity item > current_stock p)
             \<or> li_product_id item = []))
   \<and> ((\<exists>msg. fst (RecordSale_handleSubmit now1 now2 gen ps lineItems notes_in d) = Rejected msg)
        \<longrightarrow> snd (RecordSale_handleSubmit now1 now2 gen ps lineItems notes_in d) = d)
   \<and> ((\<exists>item \<in> set lineItems. \<exists>p. product_of (li_product_id item) ps = Some p
                                    \<and> li_quantity item > current_stock p)
        \<longrightarrow> (\<exists>item \<in> set lineItems. \<exists>p. product_of (li_product_id item) ps = Some p
               \<and> li_quantity item > current_stock p
               \<and> RecordSale_handleSubmit now1 now2 gen ps lineItems notes_in d
                   = (Rejected (''Not enough stock for '' @ name p @ ''. Available: ''
                                 @ Number_toString (current_stock p) @ '', Requested: ''
                                 @ Number_toString (li_quantity item)), d)))"
proof (intro conjI impI)
  show "(\<exists>msg. fst (RecordSale_handleSubmit now1 now2 gen ps lineItems notes_in d) = Rejected msg)
      \<longleftrightarrow> (\<exists>item \<in> set lineItems.
             (\<exists>p. product_of (li_product_id item) ps = Some p \<and> li_quantity item > current_stock p)
             \<or> li_product_id item = [])"
    unfolding RecordSale_handleSubmit_Rejected validateStock_valid by blast
next
  assume "\<exists>msg. fst (RecordSale_handleSubmit now1 now2 gen ps lineItems notes_in d) = Rejected msg"
  then show "snd (RecordSale_handleSubmit now1 now2 gen ps lineItems notes_in d) = d"
    by (auto simp: RecordSale_handleSubmit_def Let_def split: sum.splits option.splits if_splits)
next
  assume "\<exists>item \<in> set lineItems. \<exists>p. product_of (li_product_id item) ps = Some p
                                    \<and> li_quantity item > current_stock p"
  then have nv: "\<not> fst (validateStock ps lineItems)" by (simp add: validateStock_valid)
  from validateStock_message[OF nv] obtain item p where
    ip: "item \<in> set lineItems" "product_of (li_product_id item) ps = Some p"
      "li_quantity item > current_stock p"
      "snd (validateStock ps lineItems) = not_enough_stock p item" by blast
  have "RecordSale_handleSubmit now1 now2 gen ps lineItems notes_in d
          = (Rejected (not_enough_stock p item), d)"
    using nv ip(4) by (simp add: RecordSale_handleSubmit_def)
  with ip show "\<exists>item \<in> set lineItems. \<exists>p. product_of (li_product_id item) ps = Some p
               \<and> li_quantity item > current_stock p
               \<and> RecordSale_handleSubmit now1 now2 gen ps lineItems notes_in d
                   = (Rejected (''Not enough stock for '' @ name p @ ''. Available: ''
                                 @ Number_toString (current_stock p) @ '', Requested: ''
                                 @ Number_toString (li_quantity item)), d)"
    unfolding not_enough_stock_def by blast
qed

theorem sale_rejected_before_write_witness:
  "(\<exists>item \<in> set [\<lparr>li_id = ''1'', li_product_id = ''P'', li_quantity = 25\<rparr>].
       \<exists>p. product_of (li_product_id item) [example_product] = Some p
            \<and> li_quantity item > current_stock p)
   \<and> RecordSale_handleSubmit 4 5 example_gen [example_product]
        [\<lparr>li_id = ''1'', li_product_id = ''P'', li_quantity = 25\<rparr>] [] example_db
       = (Rejected ''Not enough stock for Candles. Available: 24, Requested: 25'', example_db)
   \<and> (\<exists>msg. fst (RecordSale_handleSubmit 4 5 example_gen [example_product]
        [\<lparr>li_id = ''1'', li_product_id = ''P'', li_quantity = 25\<rparr>] [] example_db) = Rejected msg)
   \<and> snd (RecordSale_handleSubmit 4 5 example_gen [example_product]
        [\<lparr>li_id = ''1'', li_product_id = ''P'', li_quantity = 25\<rparr>] [] example_db) = example_db"
proof -
  let ?items = "[\<lparr>li_id = ''1'', li_product_id = ''P'', li_quantity = 25\<rparr>]"
  note t = sale_rejected_before_write[of 4 5 example_gen "[example_product]" ?items "[]" example_db]
  have h: "\<exists>item \<in> set ?items. \<exists>p. product_of (li_product_id item) [example_product] = Some p
            \<and> li_quantity item > current_stock p"
    by (simp add: product_of_def example_product_def)
  from t h have r: "\<exists>msg. fst (RecordSale_handleSubmit 4 5 example_gen [example_product] ?items [] example_db)
                       = Rejected msg"
    by blast
  with t have u: "snd (RecordSale_handleSubmit 4 5 example_gen [example_product] ?items [] example_db)
                    = example_db" by blast
  have n: "Number_toString 24 = ''24''" "Number_toString 25 = ''25''" by code_simp+
  from t h have "\<exists>item \<in> set ?items. \<exists>p. product_of (li_product_id item) [example_product] = Some p
               \<and> li_quantity item > current_stock p
               \<and> RecordSale_handleSubmit 4 5 example_gen [example_product] ?items [] example_db
                   = (Rejected (''Not enough stock for '' @ name p @ ''. Available: ''
                                 @ Number_toString (current_stock p) @ '', Requested: ''
                                 @ Number_toString (li_quantity item)), example_db)"
    by blast
  then have m: "RecordSale_handleSubmit 4 5 example_gen [example_product] ?items [] example_db
       = (Rejected ''Not enough stock for Candles. Available: 24, Requested: 25'', example_db)"
    by (simp add: product_of_def example_product_def n)
  show ?thesis by (intro conjI h m r u)
qed


section \<open>The profit margin\<close>



section \<open>The two date filters of the dashboard\<close>

text \<open>
  C9. The list filter compares local calendar days; the metrics query compares the
  stored instant with the UTC date of the moment, read as midnight, on both sides. They
  disagree: with the browser two hours ahead of UTC and the session in UTC, at
  2025-10-09 10:00 UTC a sale made at that very moment is in the list for \<open>today\<close> and
  not in the query's result, and a sale made exactly one day earlier is in the list for
  \<open>yesterday\<close> and not in the query's result.
\<close>

theorem date_filters_disagree:
  "filterSalesByDate 7200000 1760004000000
       [\<lparr>s_id = ''A'', sale_date = Some 1760004000000000, total_amount = 4000, s_notes = None\<rparr>] today
     = [\<lparr>s_id = ''A'', sale_date = Some 1760004000000000, total_amount = 4000, s_notes = None\<rparr>]
   \<and> fetchFilteredData_salesData 0 1760004000000 today
       [\<lparr>s_id = ''A'', sale_date = Some 1760004000000000, total_amount = 4000, s_notes = None\<rparr>]
     = []
   \<and> filterSalesByDate 7200000 1760004000000
       [\<lparr>s_id = ''B'', sale_date = Some 1759917600000000, total_amount = 1600, s_notes = None\<rparr>] yesterday
     = [\<lparr>s_id = ''B'', sale_date = Some 1759917600000000, total_amount = 1600, s_notes = None\<rparr>]
   \<and> fetchFilteredData_salesData 0 1760004000000 yesterday
       [\<lparr>s_id = ''B'', sale_date = Some 1759917600000000, total_amount = 1600, s_notes = None\<rparr>]
     = []"
  by code_simp


lemma parseInt_Nil: "parseInt [] = NaN"
  by (simp add: parseInt_def strip_sign_def)

lemma to_integer_Inr: "to_integer x = Inr n \<Longrightarrow> x = Num (of_int n)"
  by (cases x) (auto simp: to_integer_def split: if_splits)

lemma to_integer_of_int: "to_integer (Num (of_int n)) = Inr n"
  by (simp add: to_integer_def)

lemma restock_units_added:
  assumes "Restock_handleSubmit now new_id ps st d = (OnSuccess, d')"
  shows "\<exists>p NEW. selectedProduct ps st = Some p
           \<and> stock_purchases d' = stock_purchases d @ [NEW]
           \<and> units_added NEW = units_per_batch p * batches_purchased NEW"
proof -
  from assms obtain p NEW where p: "selectedProduct ps st = Some p"
    and row: "Restock_row now new_id ps st = Inr NEW"
    and ins: "insert_stock_purchase now NEW d = Inr d'"
    by (auto simp: Restock_handleSubmit_def split: option.splits sum.splits)
  from row obtain b u where b: "to_integer (parseInt (batchesPurchased st)) = Inr b"
    and u: "to_integer (unitsAdded ps st) = Inr u"
    and f: "batches_purchased NEW = b" "units_added NEW = u"
    by (auto simp: Restock_row_def split: sum.splits)
  from to_integer_Inr[OF b] have pb: "parseInt (batchesPurchased st) = Num (of_int b)" .
  then have ne: "batchesPurchased st \<noteq> []" using parseInt_Nil by auto
  have "unitsAdded ps st = Num (of_int (units_per_batch p * b))"
    using p ne pb by (simp add: unitsAdded_def)
  with u have "u = units_per_batch p * b"
    by (simp only: to_integer_of_int sum.inject)
  with f insert_stock_purchase_Inr[OF ins] p show ?thesis by auto
qed

lemma saleItems_total:
  assumes "those (map (\<lambda>(k, item).
                   case product_of (li_product_id item) ps of
                     None \<Rightarrow> None
                   | Some p \<Rightarrow>
                       Some \<lparr>si_id = gen (Suc k), sale_id = gen 0, product_id = li_product_id item,
                             quantity = li_quantity item, unit_price = unit_selling_price p,
                             subtotal = unit_selling_price p * li_quantity item\<rparr>)
             (enumerate n lineItems)) = Some rows"
      and "\<forall>r \<in> set rows. 0 < quantity r"
  shows "foldl (\<lambda>total item.
              case product_of (li_product_id item) ps of
                Some p \<Rightarrow>
                  if li_quantity item > 0 then total + unit_selling_price p * li_quantity item
                  else total
              | None \<Rightarrow> total) acc lineItems = acc + sum_list (map subtotal rows)
         \<and> (\<forall>r \<in> set rows. sale_id r = gen 0 \<and> subtotal r = quantity r * unit_price r
               \<and> (\<exists>p. product_of (product_id r) ps = Some p \<and> unit_price r = unit_selling_price p))"
  using assms
proof (induction lineItems arbitrary: n acc rows)
  case Nil
  then show ?case by simp
next
  case (Cons item lineItems)
  from Cons.prems(1) obtain p rest where
    p: "product_of (li_product_id item) ps = Some p"
    and rest: "those (map (\<lambda>(k, item).
                   case product_of (li_product_id item) ps of
                     None \<Rightarrow> None
                   | Some p \<Rightarrow>
                       Some \<lparr>si_id = gen (Suc k), sale_id = gen 0, product_id = li_product_id item,
                             quantity = li_quantity item, unit_price = unit_selling_price p,
                             subtotal = unit_selling_price p * li_quantity item\<rparr>)
             (enumerate (Suc n) lineItems)) = Some rest"
    and rows: "rows = \<lparr>si_id = gen (Suc n), sale_id = gen 0, product_id = li_product_id item,
                             quantity = li_quantity item, unit_price = unit_selling_price p,
                             subtotal = unit_selling_price p * li_quantity item\<rparr> # rest"
    by (auto split: option.splits)
  from Cons.prems(2) rows have q: "0 < li_quantity item" "\<forall>r \<in> set rest. 0 < quantity r"
    by simp_all
  from Cons.IH[OF rest q(2), of "acc + unit_selling_price p * li_quantity item"] p q(1) rows
  show ?case by (simp add: mult.commute)
qed

lemma recorded_sale_amounts:
  assumes "RecordSale_handleSubmit now1 now2 gen ps lineItems notes_in d = (OnSuccess, d')"
  shows "\<exists>s rows. sales d' = sales d @ [s] \<and> sale_items d' = sale_items d @ rows
           \<and> s_id s = gen 0
           \<and> total_amount s = sum_list (map subtotal rows)
           \<and> (\<forall>r \<in> set rows. sale_id r = gen 0 \<and> subtotal r = quantity r * unit_price r
                 \<and> (\<exists>p. product_of (product_id r) ps = Some p
                         \<and> unit_price r = unit_selling_price p))"
proof -
  let ?s = "\<lparr>s_id = gen 0, sale_date = Some now1, total_amount = calculateTotal ps lineItems,
             s_notes = (if notes_in = [] then None else Some notes_in)\<rparr>"
  from assms obtain d1 rows where
    d1: "insert_sale ?s d = Inr d1"
    and rows: "saleItems gen ps lineItems = Some rows"
    and ins: "insert_sale_items now2 rows d1 = Inr d'"
    by (auto simp: RecordSale_handleSubmit_def Let_def split: if_splits sum.splits option.splits)
  from d1 have e1: "d1 = d\<lparr>sales := sales d @ [?s]\<rparr>"
    by (auto simp: insert_sale_def split: sum.splits if_splits)
  note c = insert_sale_items_Inr[OF ins]
  from c have q: "\<forall>r \<in> set rows. 0 < quantity r" by simp
  from saleItems_total[OF rows[unfolded saleItems_def] q, of 0]
  have t: "calculateTotal ps lineItems = sum_list (map subtotal rows)"
    and r: "\<forall>r \<in> set rows. sale_id r = gen 0 \<and> subtotal r = quantity r * unit_price r
               \<and> (\<exists>p. product_of (product_id r) ps = Some p \<and> unit_price r = unit_selling_price p)"
    by (simp_all add: calculateTotal_def)
  have "sales d' = sales d @ [?s]" "sale_items d' = sale_items d @ rows"
    using c e1 by simp_all
  with t r show ?thesis
    by (intro exI[of _ ?s] exI[of _ rows]) simp
qed

section \<open>Amounts of recorded sales and restocks\<close>

text \<open>
  C5 at a form the handler accepts: two lines for the same product, 13 units each, with
  24 in stock. Each line passes the stock check on its own. The sale is inserted with
  \<open>total_amount\<close> 208.00; the insert of the two items then raises on the second row, no
  item is kept, and the handler alerts the failure while the sale stays: a sale with a
  total of 208.00 whose sale items sum to nothing.
\<close>

theorem sale_left_without_items:
  "RecordSale_handleSubmit 4 5 example_gen [example_product]
     [\<lparr>li_id = ''1'', li_product_id = ''P'', li_quantity = 13\<rparr>,
      \<lparr>li_id = ''2'', li_product_id = ''P'', li_quantity = 13\<rparr>] [] example_db
   = (Failed ''Failed to record sale. Please try again.'',
      example_db\<lparr>sales := sales example_db
         @ [\<lparr>s_id = ''N0'', sale_date = Some 4, total_amount = 20800, s_notes = None\<rparr>]\<rparr>)
   \<and> sum_list (map subtotal (filter (\<lambda>i. sale_id i = ''N0'') (sale_items example_db))) = 0"
  by code_simp

text \<open>
  C6 at a value the number field accepts: \<open>1e2\<close> batches at 60.00. \<open>parseInt\<close> reads 1
  batch and 12 units, \<open>parseFloat\<close> reads 100 for the total: the purchase is recorded
  with 1 batch at 60.00 and a \<open>total_cost\<close> of 6000.00.
\<close>

theorem restock_total_cost_off:
  "Restock_handleSubmit 4 ''R'' [example_product]
     \<lparr>selectedProductId = ''P'', batchesPurchased = ''1e2'', costPerBatch = ''60'',
      notes_text = []\<rparr> example_db
   = (OnSuccess,
      example_db\<lparr>stock_purchases :=
          [\<lparr>sp_id = ''R'', sp_product_id = ''P'', batches_purchased = 1,
            sp_cost_per_batch = 6000, total_cost = 600000, units_added = 12,
            purchase_date = Some 4, sp_notes = None\<rparr>],
        products := [example_product\<lparr>current_stock := 36, updated_at := Some 4\<rparr>]\<rparr>)"
  by code_simp

end
